theory Spec2Isabelle
  imports Complex_Main "HOL-Library.List_Lexorder" "HOL-Library.Char_ord" "HOL-Library.Multiset"
begin

section \<open>JavaScript values used by the attendance servers\<close>

text \<open>
  The repository holds four Express servers over the same roster and attendance data:
  \<^item> \<^verbatim>\<open>src/server.js\<close>: one JSON document, attendance nested by subject and then by date,
    the data file read again on every \<^verbatim>\<open>loadData\<close>;
  \<^item> \<^verbatim>\<open>part_000\<close>, lines 1-277: one JSON document, attendance flat by date, \<^verbatim>\<open>loadData\<close> served
    from \<^verbatim>\<open>dataCache\<close> when it is set (definitions prefixed \<open>a_\<close>);
  \<^item> \<^verbatim>\<open>part_000\<close>, lines 278-627: synchronous, two files, with the metrics and the rankings
    (definitions prefixed \<open>b_\<close>, and \<open>calculateMetrics\<close>);
  \<^item> \<^verbatim>\<open>part_000\<close>, lines 627-1032: the handlers of \<^verbatim>\<open>src/server.js\<close> over flat attendance (not
    modelled separately).

  Modelling conventions. Strings are \<^typ>\<open>string\<close> (ASCII). A request field that is absent,
  \<^verbatim>\<open>undefined\<close> or \<^verbatim>\<open>null\<close> is \<^const>\<open>None\<close>; fields of other JSON types than string are outside
  the model. The own properties of a JavaScript object used as a dictionary are an association
  list in insertion order with one pair per key. What a read or an assignment finds along the
  prototype chain is modelled where the code reads or assigns under a key that a request
  chooses: the properties inherited from \<^verbatim>\<open>Object.prototype\<close>, the key \<^verbatim>\<open>__proto__\<close>, and the
  properties that such an assignment adds to a built-in object, which last as long as the
  process. \<^verbatim>\<open>decodeURIComponent\<close> is a parameter \<open>dec\<close> of the handlers that call it. A handler
  that throws outside its \<^verbatim>\<open>try\<close> sends no response: its promise is rejected. Logging is not
  modelled. The outcome of every \<^verbatim>\<open>fs.writeFile\<close> is a \<^typ>\<open>bool\<close> argument of the function that
  performs it; a failed write leaves the file as it was.
  \<^verbatim>\<open>String.prototype.localeCompare\<close> is a parameter \<open>lc\<close> of the functions that sort with it.
  Numbers are doubles: a quotient is rounded as IEEE 754 rounds it, and \<^verbatim>\<open>toFixed\<close> formats the
  value of the double. Counters are natural numbers.
\<close>

type_synonym 'v obj = "(string \<times> 'v) list"

text \<open>\<^verbatim>\<open>o[k] = v\<close>: an own key keeps its place, a new key goes last.\<close>

fun set_prop :: "string \<Rightarrow> 'v \<Rightarrow> 'v obj \<Rightarrow> 'v obj" where
  "set_prop k v [] = [(k, v)]"
| "set_prop k v (p # ps) = (if fst p = k then (k, v) # ps else p # set_prop k v ps)"

text \<open>\<^verbatim>\<open>o[k]\<close>, with \<^const>\<open>None\<close> for \<^verbatim>\<open>undefined\<close>.\<close>

definition get_prop :: "'v obj \<Rightarrow> string \<Rightarrow> 'v option" where
  "get_prop ob k = map_of ob k"

definition digit :: "char \<Rightarrow> bool" where
  "digit c \<longleftrightarrow> c \<in> set ''0123456789''"

text \<open>
  \<^verbatim>\<open>Object.keys\<close>, \<^verbatim>\<open>Object.values\<close> and \<^verbatim>\<open>Object.entries\<close> list the keys that are array
  indices (canonical decimal numerals below \<open>2\<^sup>3\<^sup>2 - 1\<close>) first, by value, and then the other
  keys in insertion order.
\<close>

definition string_value :: "string \<Rightarrow> int" where
  "string_value k = foldl (\<lambda>n c. 10 * n + (of_char c - 48)) 0 k"

definition array_index :: "string \<Rightarrow> bool" where
  "array_index k \<longleftrightarrow>
     (case k of
        [] \<Rightarrow> False
      | c # cs \<Rightarrow> list_all digit k \<and> (cs = [] \<or> c \<noteq> CHR ''0'') \<and> string_value k < 4294967295)"

definition own_entries :: "'v obj \<Rightarrow> 'v obj" where
  "own_entries ob =
     sort_key (\<lambda>p. string_value (fst p)) (filter (\<lambda>p. array_index (fst p)) ob) @
     filter (\<lambda>p. \<not> array_index (fst p)) ob"

definition own_keys :: "'v obj \<Rightarrow> string list" where
  "own_keys ob = map fst (own_entries ob)"

text \<open>\<^verbatim>\<open>o[k] = f(o[k])\<close> for a key \<open>k\<close> of \<open>o\<close>.\<close>

definition update_prop :: "('v \<Rightarrow> 'v) \<Rightarrow> string \<Rightarrow> 'v obj \<Rightarrow> 'v obj" where
  "update_prop f k ob = (case get_prop ob k of None \<Rightarrow> ob | Some v \<Rightarrow> set_prop k (f v) ob)"

text \<open>Truthiness of a string-valued field: absent and the empty string are falsy.\<close>

definition truthy :: "string option \<Rightarrow> bool" where
  "truthy v = (case v of None \<Rightarrow> False | Some s \<Rightarrow> s \<noteq> [])"

text \<open>\<^verbatim>\<open>Array.prototype.find\<close>.\<close>

fun array_find :: "('a \<Rightarrow> bool) \<Rightarrow> 'a list \<Rightarrow> 'a option" where
  "array_find p [] = None"
| "array_find p (x # xs) = (if p x then Some x else array_find p xs)"

text \<open>
  \<^verbatim>\<open>Array.prototype.sort(cmp)\<close> is stable; for a consistent comparator every stable sort
  returns the same array, here by insertion from the right.
\<close>

fun insort_cmp :: "('a \<Rightarrow> 'a \<Rightarrow> 'c::{zero,linorder}) \<Rightarrow> 'a \<Rightarrow> 'a list \<Rightarrow> 'a list" where
  "insort_cmp cmp x [] = [x]"
| "insort_cmp cmp x (y # ys) = (if cmp x y \<le> 0 then x # y # ys else y # insort_cmp cmp x ys)"

definition array_sort :: "('a \<Rightarrow> 'a \<Rightarrow> 'c::{zero,linorder}) \<Rightarrow> 'a list \<Rightarrow> 'a list" where
  "array_sort cmp xs = foldr (insort_cmp cmp) xs []"

text \<open>What the servers need of \<^verbatim>\<open>localeCompare\<close>: a consistent three-way comparison.\<close>

definition collation :: "(string \<Rightarrow> string \<Rightarrow> int) \<Rightarrow> bool" where
  "collation lc \<longleftrightarrow>
     (\<forall>a. lc a a = 0) \<and>
     (\<forall>a b. (lc a b < 0) = (0 < lc b a)) \<and>
     (\<forall>a b c. lc a b \<le> 0 \<and> lc b c \<le> 0 \<longrightarrow> lc a c \<le> 0)"

text \<open>A collation to evaluate with: comparison by code units.\<close>

definition code_unit_compare :: "string \<Rightarrow> string \<Rightarrow> int" where
  "code_unit_compare a b = (if a < b then - 1 else if a = b then 0 else 1)"

text \<open>\<^verbatim>\<open>String.prototype.trim\<close> over the ASCII white space.\<close>

definition white_space :: "char \<Rightarrow> bool" where
  "white_space c \<longleftrightarrow> c \<in> set [CHR '' '', CHR 0x09, CHR 0x0A, CHR 0x0B, CHR 0x0C, CHR 0x0D]"

definition trim :: "string \<Rightarrow> string" where
  "trim s = rev (dropWhile white_space (rev (dropWhile white_space s)))"

text \<open>
  Every object that a literal or \<^verbatim>\<open>JSON.parse\<close> makes inherits from \<^verbatim>\<open>Object.prototype\<close>: the
  accessor \<^verbatim>\<open>__proto__\<close>, which reads as \<^verbatim>\<open>Object.prototype\<close> itself, and these functions
  (Node.js). A property read \<^verbatim>\<open>o[k]\<close> finds them when \<open>o\<close> has no own property \<open>k\<close>.
\<close>

definition inherited_functions :: "string list" where
  "inherited_functions =
     [''constructor'', ''__defineGetter__'', ''__defineSetter__'', ''hasOwnProperty'',
      ''__lookupGetter__'', ''__lookupSetter__'', ''isPrototypeOf'', ''propertyIsEnumerable'',
      ''toString'', ''valueOf'', ''toLocaleString'']"

definition inherited_names :: "string list" where
  "inherited_names = ''__proto__'' # inherited_functions"

text \<open>
  \<^verbatim>\<open>o[k] = v\<close> for an object \<open>v\<close>, on an object \<open>o\<close> given by its own properties and by the
  object, if any, that an earlier assignment has made its prototype: the key \<^verbatim>\<open>__proto__\<close>
  sets the prototype and adds no property, unless \<open>o\<close> has an own property of that name
  (which \<^verbatim>\<open>JSON.parse\<close> can make).
\<close>

definition assign :: "string \<Rightarrow> 'v \<Rightarrow> 'v obj \<times> 'v option \<Rightarrow> 'v obj \<times> 'v option" where
  "assign k v ob =
     (if k = ''__proto__'' \<and> get_prop (fst ob) k = None then (fst ob, Some v)
      else (set_prop k v (fst ob), snd ob))"

text \<open>A value used as a property key: \<^verbatim>\<open>undefined\<close> is the key \<^verbatim>\<open>"undefined"\<close>.\<close>

definition property_key :: "string option \<Rightarrow> string" where
  "property_key v = (case v of None \<Rightarrow> ''undefined'' | Some k \<Rightarrow> k)"

text \<open>
  \<^verbatim>\<open>decodeURIComponent\<close> is a parameter \<open>dec\<close> of the handlers that call it, with \<^const>\<open>None\<close> for the
  \<^verbatim>\<open>URIError\<close> that it throws. An instance to evaluate with: \<^verbatim>\<open>decodeURIComponent\<close> on the strings
  whose escapes stand for ASCII characters, on which a percent sign that is not followed by
  two hexadecimal digits is the error (so is, in this instance, an escape of a byte from 128
  on, which starts a character that is no \<^typ>\<open>char\<close> of this model).
\<close>

definition hex_value :: "char \<Rightarrow> nat option" where
  "hex_value c =
     (if digit c then Some (of_char c - 48)
      else if c \<in> set ''abcdef'' then Some (of_char c - 87)
      else if c \<in> set ''ABCDEF'' then Some (of_char c - 55)
      else None)"

fun decode_ascii :: "string \<Rightarrow> string option" where
  "decode_ascii (c # h # l # s) =
     (if c = CHR ''%''
      then (case (hex_value h, hex_value l) of
              (Some a, Some b) \<Rightarrow>
                if 16 * a + b < 128 then map_option ((#) (char_of (16 * a + b))) (decode_ascii s)
                else None
            | _ \<Rightarrow> None)
      else map_option ((#) c) (decode_ascii (h # l # s)))"
| "decode_ascii s = (if CHR ''%'' \<in> set s then None else Some s)"

subsection \<open>Numbers\<close>

text \<open>
  A number is a double: a rational (every finite double is one), an infinity or \<^verbatim>\<open>NaN\<close>. The
  two zeros are not told apart. \<^verbatim>\<open>to_double\<close> rounds a rational to the nearest double, a tie
  to the one with an even significand: 53 significant bits, exponents from \<open>-1074\<close>, and
  infinity from \<open>2\<^sup>1\<^sup>0\<^sup>2\<^sup>4\<close> on.
\<close>

datatype number = Finite rat | PlusInfinity | MinusInfinity | NaN

function bit_length :: "int \<Rightarrow> int" where
  "bit_length n = (if n \<le> 0 then 0 else 1 + bit_length (n div 2))"
  by pat_completeness auto
termination
  by (relation "measure nat") auto

declare bit_length.simps [simp del]

definition pow2 :: "int \<Rightarrow> rat" where
  "pow2 k = (if 0 \<le> k then 2 ^ nat k else 1 / 2 ^ nat (- k))"

text \<open>\<open>\<lfloor>log\<^sub>2 x\<rfloor>\<close> for \<open>x > 0\<close>.\<close>

definition floor_log2 :: "rat \<Rightarrow> int" where
  "floor_log2 x =
     (case quotient_of x of (p, q) \<Rightarrow>
        (let k = bit_length p - bit_length q in if pow2 k \<le> x then k else k - 1))"

definition round_half_even :: "rat \<Rightarrow> int" where
  "round_half_even x =
     (let f = \<lfloor>x\<rfloor>; d = x - of_int f
      in if d < 1 / 2 then f else if 1 / 2 < d then f + 1 else if f mod 2 = 0 then f else f + 1)"

definition to_double :: "rat \<Rightarrow> number" where
  "to_double x =
     (if x = 0 then Finite 0
      else (let a = \<bar>x\<bar>;
                e = max (floor_log2 a - 52) (- 1074);
                m = round_half_even (a / pow2 e)
            in if 1024 < e + bit_length m
               then (if 0 < x then PlusInfinity else MinusInfinity)
               else Finite ((if 0 < x then 1 else - 1) * of_int m * pow2 e)))"

text \<open>\<^verbatim>\<open>a / b\<close> and \<^verbatim>\<open>x * b\<close>, for doubles \<open>a\<close> and \<open>b\<close>.\<close>

definition js_divide :: "rat \<Rightarrow> rat \<Rightarrow> number" where
  "js_divide a b =
     (if b = 0 then (if a = 0 then NaN else if 0 < a then PlusInfinity else MinusInfinity)
      else to_double (a / b))"

definition js_times :: "number \<Rightarrow> rat \<Rightarrow> number" where
  "js_times x b =
     (case x of
        Finite a \<Rightarrow> to_double (a * b)
      | PlusInfinity \<Rightarrow> if b = 0 then NaN else if 0 < b then PlusInfinity else MinusInfinity
      | MinusInfinity \<Rightarrow> if b = 0 then NaN else if 0 < b then MinusInfinity else PlusInfinity
      | NaN \<Rightarrow> NaN)"

text \<open>\<^verbatim>\<open>a === b\<close> and \<^verbatim>\<open>a <= b\<close> on numbers: both are false when either is \<^verbatim>\<open>NaN\<close>.\<close>

definition identical :: "number \<Rightarrow> number \<Rightarrow> bool" where
  "identical a b \<longleftrightarrow> a \<noteq> NaN \<and> a = b"

definition number_le :: "number \<Rightarrow> number \<Rightarrow> bool" where
  "number_le a b =
     (case (a, b) of
        (NaN, y) \<Rightarrow> False
      | (x, NaN) \<Rightarrow> False
      | (MinusInfinity, y) \<Rightarrow> True
      | (x, PlusInfinity) \<Rightarrow> True
      | (Finite x, Finite y) \<Rightarrow> x \<le> y
      | (x, y) \<Rightarrow> False)"

text \<open>\<^verbatim>\<open>Math.max(...xs)\<close> and \<^verbatim>\<open>Math.min(...xs)\<close>.\<close>

definition js_max :: "number \<Rightarrow> number \<Rightarrow> number" where
  "js_max a b = (if a = NaN \<or> b = NaN then NaN else if number_le a b then b else a)"

definition js_min :: "number \<Rightarrow> number \<Rightarrow> number" where
  "js_min a b = (if a = NaN \<or> b = NaN then NaN else if number_le a b then a else b)"

definition Math_max :: "number list \<Rightarrow> number" where
  "Math_max xs = fold js_max xs MinusInfinity"

definition Math_min :: "number list \<Rightarrow> number" where
  "Math_min xs = fold js_min xs PlusInfinity"

text \<open>
  The sign of \<^verbatim>\<open>a - b\<close> as \<^verbatim>\<open>Array.prototype.sort\<close> reads a comparator's result (\<^verbatim>\<open>NaN\<close> reads
  as 0). The difference of two finite doubles is rounded, which keeps its sign.
\<close>

definition sign_of_difference :: "number \<Rightarrow> number \<Rightarrow> int" where
  "sign_of_difference a b =
     (case (a, b) of
        (NaN, y) \<Rightarrow> 0
      | (x, NaN) \<Rightarrow> 0
      | (Finite x, Finite y) \<Rightarrow> (if x < y then - 1 else if x = y then 0 else 1)
      | (PlusInfinity, PlusInfinity) \<Rightarrow> 0
      | (MinusInfinity, MinusInfinity) \<Rightarrow> 0
      | (PlusInfinity, y) \<Rightarrow> 1
      | (x, PlusInfinity) \<Rightarrow> - 1
      | (MinusInfinity, y) \<Rightarrow> - 1
      | (x, MinusInfinity) \<Rightarrow> 1)"

function decimal :: "nat \<Rightarrow> string" where
  "decimal n = (if n < 10 then [''0123456789'' ! n] else decimal (n div 10) @ [''0123456789'' ! (n mod 10)])"
  by pat_completeness auto
termination
  by (relation "measure id") auto

text \<open>
  \<^verbatim>\<open>x.toFixed(1)\<close>, for a number below \<open>10\<^sup>2\<^sup>1\<close> in absolute value (from there on JavaScript
  switches to the exponent notation, which is not modelled): the multiple of one tenth that
  is nearest to the value of the double, the larger one on a tie.
\<close>

definition toFixed1 :: "number \<Rightarrow> string" where
  "toFixed1 x =
     (case x of
        Finite r \<Rightarrow>
          (let n = nat \<lfloor>\<bar>r\<bar> * 10 + 1 / 2\<rfloor>
           in (if r < 0 then ''-'' else []) @ decimal (n div 10) @ ''.'' @ decimal (n mod 10))
      | PlusInfinity \<Rightarrow> ''Infinity''
      | MinusInfinity \<Rightarrow> ''-Infinity''
      | NaN \<Rightarrow> ''NaN'')"

section \<open>Data model\<close>

record student =
  roll_no :: string
  name :: string
  course :: "string option"

text \<open>An attendance entry, in a request body and in a bucket.\<close>

record att =
  att_roll_no :: "string option"
  status :: "string option"
  att_name :: "string option"

type_synonym bucket = "att list"

text \<open>
  The document: \<open>'v\<close> is \<^typ>\<open>bucket\<close> when attendance is flat by date and \<^typ>\<open>bucket obj\<close>
  when it is nested by subject and then by date.
\<close>

record 'v doc =
  students :: "student list"
  attendance :: "'v obj"

definition empty_doc :: "'v doc" where
  "empty_doc = \<lparr>students = [], attendance = []\<rparr>"

text \<open>
  What \<^verbatim>\<open>JSON.parse\<close> makes of the data file: \<^verbatim>\<open>null\<close>, or an object whose \<^verbatim>\<open>students\<close>
  and \<^verbatim>\<open>attendance\<close> may be missing (or falsy), which is \<^const>\<open>None\<close>.
\<close>

record 'v raw_doc =
  raw_students :: "student list option"
  raw_attendance :: "'v obj option"

datatype 'v json = JNull | JObject "'v raw_doc"

text \<open>
  The data file: missing, unreadable for another reason, holding text that \<^verbatim>\<open>JSON.parse\<close>
  rejects, or holding text that parses.
\<close>

datatype 'v file_state = ENOENT | ReadError | BadJSON | Parsed "'v json"

definition stringify :: "'v doc \<Rightarrow> 'v file_state" where
  "stringify d = Parsed (JObject \<lparr>raw_students = Some (students d), raw_attendance = Some (attendance d)\<rparr>)"

text \<open>
  \<^verbatim>\<open>if (!dataCache.students) dataCache.students = [];\<close>
  \<^verbatim>\<open>if (!dataCache.attendance) dataCache.attendance = {};\<close>
\<close>

definition backfill :: "'v raw_doc \<Rightarrow> 'v doc" where
  "backfill raw =
     \<lparr>students = (case raw_students raw of None \<Rightarrow> [] | Some ss \<Rightarrow> ss),
      attendance = (case raw_attendance raw of None \<Rightarrow> [] | Some a \<Rightarrow> a)\<rparr>"

text \<open>
  The process: the data file, the objects it has allocated (a reference is a number), and
  the module variable \<^verbatim>\<open>dataCache\<close>, which is \<^verbatim>\<open>null\<close> or a reference. \<^verbatim>\<open>loadData\<close> returns
  the reference held by \<^verbatim>\<open>dataCache\<close>, so a handler that mutates \<^verbatim>\<open>data\<close> mutates the object
  that \<^verbatim>\<open>dataCache\<close> refers to.

  The process also holds the objects that every document inherits from, with the properties
  that requests have added to them: \<open>on_functions f\<close> are the properties added to the function
  that \<^verbatim>\<open>Object.prototype\<close> has under the name \<open>f\<close>, and \<open>on_prototype\<close> those added to
  \<^verbatim>\<open>Object.prototype\<close> itself. Both hold arrays under dates; an array on \<^verbatim>\<open>Object.prototype\<close> comes
  with the properties that were added to that array in turn. Only
  \<^verbatim>\<open>POST /api/attendance/:subject/:date\<close> of \<^verbatim>\<open>src/server.js\<close> adds such properties.
\<close>

record 'v server =
  data_file :: "'v file_state"
  heap :: "nat \<Rightarrow> 'v doc"
  next_ref :: nat
  dataCache :: "nat option"
  on_functions :: "string \<Rightarrow> bucket obj"
  on_prototype :: "(bucket \<times> bucket obj) obj"

definition alloc :: "'v doc \<Rightarrow> 'v server \<Rightarrow> nat \<times> 'v server" where
  "alloc d s = (next_ref s, s\<lparr>heap := (heap s)(next_ref s := d), next_ref := Suc (next_ref s)\<rparr>)"

text \<open>A mutation of the object behind reference \<open>r\<close>.\<close>

definition mutate :: "nat \<Rightarrow> ('v doc \<Rightarrow> 'v doc) \<Rightarrow> 'v server \<Rightarrow> 'v server" where
  "mutate r f s = s\<lparr>heap := (heap s)(r := f (heap s r))\<rparr>"

datatype error = Error string

datatype 'v body =
    Message string
  | StudentJson student
  | StudentsJson "student list"
  | AttendanceJson "'v obj"
  | EntriesJson bucket
  | PrintView string bucket nat

text \<open>
  What becomes of a request: a response, or, when the handler throws outside its \<^verbatim>\<open>try\<close>, a
  rejected promise that nothing handles (the process logs it and sends no response).
\<close>

datatype 'v response = Response nat "'v body" | Rejected error

record student_req =
  req_roll_no :: "string option"
  req_name :: "string option"
  req_course :: "string option"

datatype req_body = NotArray | Array "att list"

section \<open>The document store of \<^verbatim>\<open>src/server.js\<close>\<close>

definition save_with :: "string \<Rightarrow> bool \<Rightarrow> nat \<Rightarrow> 'v server \<Rightarrow> (error + unit) \<times> 'v server" where
  "save_with msg written r s =
     (if written then (Inr (), s\<lparr>data_file := stringify (heap s r), dataCache := Some r\<rparr>)
      else (Inl (Error msg), s))"

definition saveData :: "bool \<Rightarrow> nat \<Rightarrow> 'v server \<Rightarrow> (error + unit) \<times> 'v server" where
  "saveData = save_with ''Failed to save data to the server file.''"

text \<open>
  \<^verbatim>\<open>loadData\<close> of \<^verbatim>\<open>src/server.js\<close> reads the file on every call. \<open>w\<close> is the outcome of the
  write of the default file, which happens only when the file is missing; its failure is
  caught and logged.
\<close>

definition cache_new :: "'v doc \<Rightarrow> 'v server \<Rightarrow> nat \<times> 'v server" where
  "cache_new d s = (case alloc d s of (r, s1) \<Rightarrow> (r, s1\<lparr>dataCache := Some r\<rparr>))"

definition loadData :: "bool \<Rightarrow> 'v server \<Rightarrow> nat \<times> 'v server" where
  "loadData w s =
     (case data_file s of
        Parsed j \<Rightarrow> cache_new (case j of JNull \<Rightarrow> empty_doc | JObject raw \<Rightarrow> backfill raw) s
      | BadJSON \<Rightarrow> cache_new empty_doc s
      | ENOENT \<Rightarrow> (case cache_new empty_doc s of (r, s1) \<Rightarrow> (r, snd (saveData w r s1)))
      | ReadError \<Rightarrow> cache_new empty_doc s)"

section \<open>The roster of \<^verbatim>\<open>src/server.js\<close>\<close>

definition has_roll_no :: "string \<Rightarrow> student \<Rightarrow> bool" where
  "has_roll_no rn st \<longleftrightarrow> roll_no st = rn"

definition by_roll_no :: "(string \<Rightarrow> string \<Rightarrow> int) \<Rightarrow> student \<Rightarrow> student \<Rightarrow> int" where
  "by_roll_no lc a b = lc (roll_no a) (roll_no b)"

definition error_message :: "error \<Rightarrow> string \<Rightarrow> string" where
  "error_message e dflt = (case e of Error m \<Rightarrow> if m \<noteq> [] then m else dflt)"

text \<open>\<^verbatim>\<open>course || "N/A"\<close>\<close>

definition default_course :: "string option \<Rightarrow> string" where
  "default_course c = (case c of None \<Rightarrow> ''N/A'' | Some x \<Rightarrow> if x \<noteq> [] then x else ''N/A'')"

definition post_students ::
  "(string \<Rightarrow> string \<Rightarrow> int) \<Rightarrow> bool \<Rightarrow> bool \<Rightarrow> student_req \<Rightarrow> 'v server \<Rightarrow> 'v response \<times> 'v server" where
  "post_students lc wl ws req s =
     (if \<not> truthy (req_roll_no req) \<or> \<not> truthy (req_name req)
      then (Response 400 (Message ''Roll number and name are required.''), s)
      else case (req_roll_no req, req_name req) of
        (Some rn, Some nm) \<Rightarrow>
          (case loadData wl s of (data, s1) \<Rightarrow>
             (case array_find (has_roll_no rn) (students (heap s1 data)) of
                Some existing \<Rightarrow>
                  (Response 400 (Message (''Student with roll number '' @ rn @ '' already exists.'')), s1)
              | None \<Rightarrow>
                  (let newStudent = \<lparr>roll_no = rn, name = nm,
                         course = Some (default_course (req_course req))\<rparr>;
                       s2 = mutate data (\<lambda>d. d\<lparr>students := students d @ [newStudent]\<rparr>) s1;
                       s3 = mutate data (\<lambda>d. d\<lparr>students := array_sort (by_roll_no lc) (students d)\<rparr>) s2
                   in case saveData ws data s3 of
                        (Inr u, s4) \<Rightarrow> (Response 201 (StudentJson newStudent), s4)
                      | (Inl e, s4) \<Rightarrow> (Response 500 (Message (error_message e ''Error adding student.'')), s4))))
      | _ \<Rightarrow> (Response 400 (Message ''Roll number and name are required.''), s))"

text \<open>
  The cascade of \<^verbatim>\<open>DELETE /api/students/:roll_no\<close>: \<^verbatim>\<open>Object.keys(o).forEach\<close> over the dates,
  inside one over the subjects; the bucket read under a key is filtered and stored back.
\<close>

definition other_than :: "string \<Rightarrow> att \<Rightarrow> bool" where
  "other_than rn a \<longleftrightarrow> att_roll_no a \<noteq> Some rn"

definition purge_dates :: "string \<Rightarrow> bucket obj \<Rightarrow> bucket obj" where
  "purge_dates rn dates = fold (update_prop (filter (other_than rn))) (own_keys dates) dates"

definition purge_subjects :: "string \<Rightarrow> bucket obj obj \<Rightarrow> bucket obj obj" where
  "purge_subjects rn subjects = fold (update_prop (purge_dates rn)) (own_keys subjects) subjects"

definition delete_students ::
  "bool \<Rightarrow> bool \<Rightarrow> string \<Rightarrow> bucket obj server \<Rightarrow> bucket obj response \<times> bucket obj server" where
  "delete_students wl ws roll_no_to_delete s =
     (case loadData wl s of (data, s1) \<Rightarrow>
        (let initialLength = length (students (heap s1 data));
             s2 = mutate data
                    (\<lambda>d. d\<lparr>students := filter (\<lambda>st. roll_no st \<noteq> roll_no_to_delete) (students d)\<rparr>) s1
         in if length (students (heap s2 data)) = initialLength
            then (Response 404
                    (Message (''Student with roll number '' @ roll_no_to_delete @ '' not found.'')), s2)
            else (let s3 = mutate data
                             (\<lambda>d. d\<lparr>attendance := purge_subjects roll_no_to_delete (attendance d)\<rparr>) s2
                  in case saveData ws data s3 of
                       (Inr u, s4) \<Rightarrow>
                         (Response 200
                            (Message (''Student '' @ roll_no_to_delete @ '' deleted successfully.'')), s4)
                     | (Inl e, s4) \<Rightarrow>
                         (Response 500 (Message (error_message e ''Error deleting student.'')), s4))))"

section \<open>Attendance in \<^verbatim>\<open>src/server.js\<close>\<close>

text \<open>The test \<^verbatim>\<open>/^\d{4}-\d{2}-\d{2}$/.test(date)\<close>, piece by piece.\<close>

fun digits :: "nat \<Rightarrow> string \<Rightarrow> string option" where
  "digits 0 s = Some s"
| "digits (Suc n) [] = None"
| "digits (Suc n) (c # s) = (if digit c then digits n s else None)"

fun literal :: "char \<Rightarrow> string \<Rightarrow> string option" where
  "literal c [] = None"
| "literal c (x # s) = (if x = c then Some s else None)"

definition date_format :: "string \<Rightarrow> bool" where
  "date_format date \<longleftrightarrow>
     Option.bind (Option.bind (Option.bind (Option.bind (digits 4 date) (literal CHR ''-''))
       (digits 2)) (literal CHR ''-'')) (digits 2) = Some []"

definition invalid_date :: "'v response" where
  "invalid_date = Response 400 (Message ''Invalid date format. Use YYYY-MM-DD.'')"

definition subject_required :: "'v response" where
  "subject_required = Response 400 (Message ''Subject is required.'')"

text \<open>
  \<^verbatim>\<open>data.attendance[subject]\<close>: an own property of the attendance object; or what the object
  inherits under that name, which is \<^verbatim>\<open>Object.prototype\<close> itself under \<^verbatim>\<open>__proto__\<close>, a built-in
  function, or an array that a request has put on \<^verbatim>\<open>Object.prototype\<close>; or \<^verbatim>\<open>undefined\<close>.
\<close>

datatype holder =
    OwnObject "bucket obj"
  | ThePrototype
  | BuiltinFunction string
  | ArrayOnPrototype string
  | NoObject

definition lookup_subject :: "'v server \<Rightarrow> bucket obj obj \<Rightarrow> string \<Rightarrow> holder" where
  "lookup_subject s a subject =
     (case get_prop a subject of
        Some dates \<Rightarrow> OwnObject dates
      | None \<Rightarrow>
          if subject = ''__proto__'' then ThePrototype
          else if subject \<in> set inherited_functions then BuiltinFunction subject
          else (case get_prop (on_prototype s) subject of
                  Some array \<Rightarrow> ArrayOnPrototype subject
                | None \<Rightarrow> NoObject))"

text \<open>
  \<^verbatim>\<open>holder[date]\<close> for a date that has passed the test (so that it names no built-in
  property): an own property of the holder, or else what \<^verbatim>\<open>Object.prototype\<close> has under the date.
\<close>

definition inherited_bucket :: "'v server \<Rightarrow> string \<Rightarrow> bucket option" where
  "inherited_bucket s date = map_option fst (get_prop (on_prototype s) date)"

definition or_inherited :: "'v server \<Rightarrow> string \<Rightarrow> bucket option \<Rightarrow> bucket option" where
  "or_inherited s date own = (case own of Some l \<Rightarrow> Some l | None \<Rightarrow> inherited_bucket s date)"

definition lookup_date :: "'v server \<Rightarrow> holder \<Rightarrow> string \<Rightarrow> bucket option" where
  "lookup_date s h date =
     (case h of
        OwnObject dates \<Rightarrow> or_inherited s date (get_prop dates date)
      | ThePrototype \<Rightarrow> inherited_bucket s date
      | BuiltinFunction f \<Rightarrow> or_inherited s date (get_prop (on_functions s f) date)
      | ArrayOnPrototype k \<Rightarrow>
          (case get_prop (on_prototype s) k of
             Some (array, props) \<Rightarrow> or_inherited s date (get_prop props date)
           | None \<Rightarrow> None)
      | NoObject \<Rightarrow> None)"

text \<open>\<^verbatim>\<open>data.attendance?.[subject]?.[date] || []\<close>\<close>

definition subject_date :: "'v server \<Rightarrow> bucket obj obj \<Rightarrow> string \<Rightarrow> string \<Rightarrow> bucket" where
  "subject_date s a subject date =
     (case lookup_date s (lookup_subject s a subject) date of None \<Rightarrow> [] | Some l \<Rightarrow> l)"

text \<open>
  In the handlers of \<^verbatim>\<open>src/server.js\<close>, \<open>param\<close> is \<^verbatim>\<open>req.params.subject\<close>, which is decoded
  before the \<^verbatim>\<open>try\<close> block is entered; \<open>wl\<close> is the outcome of the write inside \<^const>\<open>loadData\<close>
  and \<open>ws\<close> that of the handler's \<^const>\<open>saveData\<close>.
\<close>

definition uri_error :: error where
  "uri_error = Error ''URI malformed''"

definition get_attendance ::
  "(string \<Rightarrow> string option) \<Rightarrow> bool \<Rightarrow> string \<Rightarrow> string \<Rightarrow> bucket obj server
     \<Rightarrow> bucket obj response \<times> bucket obj server" where
  "get_attendance dec wl param date s =
     (case dec param of
        None \<Rightarrow> (Rejected uri_error, s)
      | Some subject \<Rightarrow>
          if \<not> date_format date then (invalid_date, s)
          else if subject = [] then (subject_required, s)
          else case loadData wl s of (data, s1) \<Rightarrow>
                 (Response 200 (EntriesJson (subject_date s1 (attendance (heap s1 data)) subject date)), s1))"

definition quoted :: "string \<Rightarrow> string" where
  "quoted x = [CHR 0x27] @ x @ [CHR 0x27]"

definition validStatuses :: "string list" where
  "validStatuses = [''present'', ''absent'']"

definition valid_item :: "att \<Rightarrow> bool" where
  "valid_item item \<longleftrightarrow>
     (case att_roll_no item of None \<Rightarrow> False | Some r \<Rightarrow> trim r \<noteq> []) \<and>
     (case status item of None \<Rightarrow> False | Some st \<Rightarrow> st \<in> set validStatuses)"

text \<open>
  \<^verbatim>\<open>attendanceList.map(att => student ? { ...att, name: student.name } : null).filter(Boolean)\<close>
\<close>

definition enrich :: "student list \<Rightarrow> att \<Rightarrow> att option" where
  "enrich studs a =
     (case array_find (\<lambda>st. Some (roll_no st) = att_roll_no a) studs of
        Some student \<Rightarrow> Some (a\<lparr>att_name := Some (name student)\<rparr>)
      | None \<Rightarrow> None)"

definition enrichedAttendance :: "student list \<Rightarrow> att list \<Rightarrow> bucket" where
  "enrichedAttendance studs attendanceList = List.map_filter (enrich studs) attendanceList"

text \<open>
  \<^verbatim>\<open>data.attendance[subject][date] = enrichedAttendance\<close>: the array becomes a property of
  whatever \<^verbatim>\<open>data.attendance[subject]\<close> reads (which is an object here: the statement comes after
  the one that creates the subject when nothing is read). Only an own property of the
  attendance object is part of the document.
\<close>

definition assign_date :: "nat \<Rightarrow> string \<Rightarrow> string \<Rightarrow> bucket \<Rightarrow> bucket obj server \<Rightarrow> bucket obj server" where
  "assign_date data subject date l s =
     (case lookup_subject s (attendance (heap s data)) subject of
        OwnObject dates \<Rightarrow>
          mutate data (\<lambda>d. d\<lparr>attendance := set_prop subject (set_prop date l dates) (attendance d)\<rparr>) s
      | ThePrototype \<Rightarrow> s\<lparr>on_prototype := set_prop date (l, []) (on_prototype s)\<rparr>
      | BuiltinFunction f \<Rightarrow> s\<lparr>on_functions := (on_functions s)(f := set_prop date l (on_functions s f))\<rparr>
      | ArrayOnPrototype k \<Rightarrow>
          s\<lparr>on_prototype := update_prop (\<lambda>(array, props). (array, set_prop date l props)) k (on_prototype s)\<rparr>
      | NoObject \<Rightarrow> s)"

definition save_failed :: "error \<Rightarrow> string" where
  "save_failed e =
     (if e = Error ''Failed to save data to the server file.''
      then ''Server failed to save the attendance data file.''
      else error_message e ''Error saving attendance data.'')"

definition post_attendance ::
  "(string \<Rightarrow> string option) \<Rightarrow> bool \<Rightarrow> bool \<Rightarrow> string \<Rightarrow> string \<Rightarrow> req_body \<Rightarrow> bucket obj server
     \<Rightarrow> bucket obj response \<times> bucket obj server" where
  "post_attendance dec wl ws param date body s =
     (case dec param of
        None \<Rightarrow> (Rejected uri_error, s)
      | Some subject \<Rightarrow>
          if \<not> date_format date then (invalid_date, s)
          else if subject = [] then (subject_required, s)
          else (case body of
            NotArray \<Rightarrow> (Response 400 (Message ''Invalid data format. Expected an array.''), s)
          | Array attendanceList \<Rightarrow>
              if \<not> list_all valid_item attendanceList
              then (Response 400 (Message
                      (''Invalid attendance data in the list. Each item must have non-empty roll_no '' @
                       ''and a valid status ('' @ quoted ''present'' @ '' or '' @ quoted ''absent'' @ '').'')), s)
              else (case loadData wl s of (data, s1) \<Rightarrow>
                (let enriched = enrichedAttendance (students (heap s1 data)) attendanceList;
                     s2 = (case lookup_subject s1 (attendance (heap s1 data)) subject of
                             NoObject \<Rightarrow>
                               mutate data (\<lambda>d. d\<lparr>attendance := set_prop subject [] (attendance d)\<rparr>) s1
                           | _ \<Rightarrow> s1);
                     s3 = assign_date data subject date enriched s2
                 in case saveData ws data s3 of
                      (Inr u, s4) \<Rightarrow>
                        (Response 200
                           (Message (''Attendance for '' @ subject @ '' on '' @ date @ '' saved successfully.'')),
                         s4)
                    | (Inl e, s4) \<Rightarrow> (Response 500 (Message (save_failed e)), s4)))))"

text \<open>
  \<^verbatim>\<open>GET /admin/print/:subject/:date\<close>: the page is a function of the title parts, the entries
  marked present and the size of the roster, which is what \<^const>\<open>PrintView\<close> keeps of it.
\<close>

definition marked_present :: "att \<Rightarrow> bool" where
  "marked_present a \<longleftrightarrow> status a = Some ''present''"


section \<open>The cached server with flat attendance (\<^verbatim>\<open>part_000\<close>, lines 1-277)\<close>

definition a_saveData :: "bool \<Rightarrow> nat \<Rightarrow> 'v server \<Rightarrow> (error + unit) \<times> 'v server" where
  "a_saveData = save_with ''Failed to save data to the server.''"

text \<open>
  \<^verbatim>\<open>loadData\<close> returns \<^verbatim>\<open>dataCache\<close> when it is set. Otherwise every failure of the read or of
  the parse (\<^verbatim>\<open>null\<close> included: \<^verbatim>\<open>null.students\<close> throws) ends in the \<^verbatim>\<open>catch\<close>, which installs
  the default document and, for a missing file only, saves it; the error of that save is
  not caught.
\<close>

definition a_loadData :: "bool \<Rightarrow> 'v server \<Rightarrow> (error + nat) \<times> 'v server" where
  "a_loadData w s =
     (case dataCache s of
        Some r \<Rightarrow> (Inr r, s)
      | None \<Rightarrow>
          (case data_file s of
             Parsed (JObject raw) \<Rightarrow> (case cache_new (backfill raw) s of (r, s1) \<Rightarrow> (Inr r, s1))
           | Parsed JNull \<Rightarrow> (case cache_new empty_doc s of (r, s1) \<Rightarrow> (Inr r, s1))
           | BadJSON \<Rightarrow> (case cache_new empty_doc s of (r, s1) \<Rightarrow> (Inr r, s1))
           | ReadError \<Rightarrow> (case cache_new empty_doc s of (r, s1) \<Rightarrow> (Inr r, s1))
           | ENOENT \<Rightarrow>
               (case cache_new empty_doc s of (r, s1) \<Rightarrow>
                  (case a_saveData w r s1 of
                     (Inr u, s2) \<Rightarrow> (Inr r, s2)
                   | (Inl e, s2) \<Rightarrow> (Inl e, s2)))))"

definition a_post_students ::
  "(string \<Rightarrow> string \<Rightarrow> int) \<Rightarrow> bool \<Rightarrow> bool \<Rightarrow> student_req \<Rightarrow> 'v server \<Rightarrow> 'v response \<times> 'v server" where
  "a_post_students lc wl ws req s =
     (if \<not> truthy (req_roll_no req) \<or> \<not> truthy (req_name req)
      then (Response 400 (Message ''Roll number and name are required.''), s)
      else case (req_roll_no req, req_name req) of
        (Some rn, Some nm) \<Rightarrow>
          (case a_loadData wl s of
             (Inl e, s1) \<Rightarrow> (Response 500 (Message (error_message e ''Error adding student.'')), s1)
           | (Inr data, s1) \<Rightarrow>
             (case array_find (has_roll_no rn) (students (heap s1 data)) of
                Some existing \<Rightarrow>
                  (Response 400 (Message (''Student with roll number '' @ rn @ '' already exists.'')), s1)
              | None \<Rightarrow>
                  (let newStudent = \<lparr>roll_no = rn, name = nm,
                         course = Some (default_course (req_course req))\<rparr>;
                       s2 = mutate data (\<lambda>d. d\<lparr>students := students d @ [newStudent]\<rparr>) s1;
                       s3 = mutate data (\<lambda>d. d\<lparr>students := array_sort (by_roll_no lc) (students d)\<rparr>) s2
                   in case a_saveData ws data s3 of
                        (Inr u, s4) \<Rightarrow> (Response 201 (StudentJson newStudent), s4)
                      | (Inl e, s4) \<Rightarrow> (Response 500 (Message (error_message e ''Error adding student.'')), s4))))
      | _ \<Rightarrow> (Response 400 (Message ''Roll number and name are required.''), s))"

definition a_delete_students ::
  "bool \<Rightarrow> bool \<Rightarrow> string \<Rightarrow> bucket server \<Rightarrow> bucket response \<times> bucket server" where
  "a_delete_students wl ws roll_no_to_delete s =
     (case a_loadData wl s of
        (Inl e, s1) \<Rightarrow> (Response 500 (Message (error_message e ''Error deleting student.'')), s1)
      | (Inr data, s1) \<Rightarrow>
        (let initialLength = length (students (heap s1 data));
             s2 = mutate data
                    (\<lambda>d. d\<lparr>students := filter (\<lambda>st. roll_no st \<noteq> roll_no_to_delete) (students d)\<rparr>) s1
         in if length (students (heap s2 data)) = initialLength
            then (Response 404
                    (Message (''Student with roll number '' @ roll_no_to_delete @ '' not found.'')), s2)
            else (let s3 = mutate data
                             (\<lambda>d. d\<lparr>attendance := purge_dates roll_no_to_delete (attendance d)\<rparr>) s2
                  in case a_saveData ws data s3 of
                       (Inr u, s4) \<Rightarrow>
                         (Response 200
                            (Message (''Student '' @ roll_no_to_delete @ '' deleted successfully.'')), s4)
                     | (Inl e, s4) \<Rightarrow>
                         (Response 500 (Message (error_message e ''Error deleting student.'')), s4))))"

text \<open>\<^verbatim>\<open>data.attendance[date] || []\<close>\<close>

definition on_date :: "bucket obj \<Rightarrow> string \<Rightarrow> bucket" where
  "on_date a date = (case get_prop a date of None \<Rightarrow> [] | Some l \<Rightarrow> l)"

definition a_get_attendance ::
  "bool \<Rightarrow> string \<Rightarrow> bucket server \<Rightarrow> bucket response \<times> bucket server" where
  "a_get_attendance wl date s =
     (if \<not> date_format date then (invalid_date, s)
      else case a_loadData wl s of
             (Inl e, s1) \<Rightarrow> (Response 500 (Message ''Error loading attendance data for the date.''), s1)
           | (Inr data, s1) \<Rightarrow> (Response 200 (EntriesJson (on_date (attendance (heap s1 data)) date)), s1))"

text \<open>This variant checks the types of \<^verbatim>\<open>roll_no\<close> and \<^verbatim>\<open>status\<close> only, and keeps every entry.\<close>

definition a_valid_item :: "att \<Rightarrow> bool" where
  "a_valid_item item \<longleftrightarrow>
     att_roll_no item \<noteq> None \<and>
     (case status item of None \<Rightarrow> False | Some st \<Rightarrow> st \<in> set validStatuses)"

definition a_enrichedAttendance :: "student list \<Rightarrow> att list \<Rightarrow> bucket" where
  "a_enrichedAttendance studs attendanceList =
     map (\<lambda>a. a\<lparr>att_name := Some (case array_find (\<lambda>st. Some (roll_no st) = att_roll_no a) studs of
                                     Some student \<Rightarrow> name student
                                   | None \<Rightarrow> ''Unknown'')\<rparr>)
         attendanceList"

definition a_post_attendance ::
  "bool \<Rightarrow> bool \<Rightarrow> string \<Rightarrow> req_body \<Rightarrow> bucket server \<Rightarrow> bucket response \<times> bucket server" where
  "a_post_attendance wl ws date body s =
     (if \<not> date_format date then (invalid_date, s)
      else case body of
        NotArray \<Rightarrow> (Response 400 (Message ''Invalid data format. Expected an array.''), s)
      | Array attendanceList \<Rightarrow>
          if \<not> list_all a_valid_item attendanceList
          then (Response 400 (Message
                  (''Invalid attendance data in the list. Each item must have roll_no '' @
                   ''and a valid status ('' @ quoted ''present'' @ '' or '' @ quoted ''absent'' @ '').'')), s)
          else (case a_loadData wl s of
                  (Inl e, s1) \<Rightarrow>
                    (Response 500 (Message (error_message e ''Error saving attendance data.'')), s1)
                | (Inr data, s1) \<Rightarrow>
                    (let enriched = a_enrichedAttendance (students (heap s1 data)) attendanceList;
                         s2 = mutate data (\<lambda>d. d\<lparr>attendance := set_prop date enriched (attendance d)\<rparr>) s1
                     in case a_saveData ws data s2 of
                          (Inr u, s3) \<Rightarrow>
                            (Response 200 (Message (''Attendance for '' @ date @ '' saved successfully.'')), s3)
                        | (Inl e, s3) \<Rightarrow>
                            (Response 500 (Message (error_message e ''Error saving attendance data.'')), s3))))"


section \<open>The synchronous server with two files (\<^verbatim>\<open>part_000\<close>, lines 278-627)\<close>

text \<open>
  The module variables \<^verbatim>\<open>students\<close> and \<^verbatim>\<open>attendanceData\<close>, and what the two files hold
  (\<^const>\<open>None\<close> while a file does not exist). \<^verbatim>\<open>attendanceData\<close> is given by its own properties
  and by the array, if any, that a request has made its prototype; \<^verbatim>\<open>calculateMetrics\<close> reads
  the own properties only.
\<close>

record b_server =
  b_students :: "student list"
  attendanceData :: "bucket obj"
  attendanceData_proto :: "bucket option"
  students_file :: "student list option"
  attendance_file :: "bucket obj option"

definition saveStudents :: "bool \<Rightarrow> b_server \<Rightarrow> bool \<times> b_server" where
  "saveStudents written s =
     (if written then (True, s\<lparr>students_file := Some (b_students s)\<rparr>) else (False, s))"

definition saveAttendanceData :: "bool \<Rightarrow> b_server \<Rightarrow> bool \<times> b_server" where
  "saveAttendanceData written s =
     (if written then (True, s\<lparr>attendance_file := Some (attendanceData s)\<rparr>) else (False, s))"

definition b_post_students :: "bool \<Rightarrow> student_req \<Rightarrow> b_server \<Rightarrow> bucket response \<times> b_server" where
  "b_post_students written req s =
     (if \<not> truthy (req_roll_no req) \<or> \<not> truthy (req_name req)
      then (Response 400 (Message ''Roll No and Name are required''), s)
      else case (req_roll_no req, req_name req) of
        (Some rn, Some nm) \<Rightarrow>
          if list_ex (has_roll_no rn) (b_students s)
          then (Response 400 (Message ''Student with this Roll No already exists''), s)
          else (let newStudent = \<lparr>roll_no = rn, name = nm, course = None\<rparr>;
                    s1 = s\<lparr>b_students := b_students s @ [newStudent]\<rparr>
                in case saveStudents written s1 of
                     (True, s2) \<Rightarrow> (Response 201 (StudentJson newStudent), s2)
                   | (False, s2) \<Rightarrow>
                       (Response 500 (Message ''Failed to save student data''),
                        s2\<lparr>b_students := butlast (b_students s2)\<rparr>))
      | _ \<Rightarrow> (Response 400 (Message ''Roll No and Name are required''), s))"

text \<open>
  \<^verbatim>\<open>POST /api/attendance/:date\<close> takes the date as it comes. \<^verbatim>\<open>attendanceData[date] = attendanceList\<close>
  is an assignment of an object, and \<^verbatim>\<open>delete attendanceData[date]\<close> removes an own property.
\<close>

definition b_post_attendance ::
  "bool \<Rightarrow> string \<Rightarrow> req_body \<Rightarrow> b_server \<Rightarrow> bucket response \<times> b_server" where
  "b_post_attendance written date body s =
     (case body of
        NotArray \<Rightarrow> (Response 400 (Message ''Invalid attendance data format. Expected an array.''), s)
      | Array attendanceList \<Rightarrow>
          if list_ex (\<lambda>item. \<not> truthy (att_roll_no item) \<or> \<not> truthy (status item)) attendanceList
          then (Response 400 (Message ''Each attendance record must have roll_no and status.''), s)
          else (case assign date attendanceList (attendanceData s, attendanceData_proto s) of
                  (own, proto) \<Rightarrow>
                    (let s1 = s\<lparr>attendanceData := own, attendanceData_proto := proto\<rparr>
                     in case saveAttendanceData written s1 of
                          (True, s2) \<Rightarrow>
                            (Response 200 (Message (''Attendance for '' @ date @ '' saved successfully.'')), s2)
                        | (False, s2) \<Rightarrow>
                            (Response 500 (Message ''Failed to save attendance data.''),
                             s2\<lparr>attendanceData := filter (\<lambda>p. fst p \<noteq> date) (attendanceData s2)\<rparr>))))"

subsection \<open>\<^verbatim>\<open>calculateMetrics\<close>\<close>

record student_metrics =
  sm_name :: string
  present :: nat
  absent :: nat
  total :: nat

text \<open>
  The variables that the two nested \<^verbatim>\<open>forEach\<close> loops update. \<^verbatim>\<open>studentMetrics\<close> is given by its
  own properties and by \<open>studentMetrics_proto\<close>, the object that \<^verbatim>\<open>studentMetrics[s.roll_no] = {...}\<close>
  has made its prototype, if a roll number is \<^verbatim>\<open>__proto__\<close>. The counters are natural numbers (a
  double counts exactly up to \<open>2\<^sup>5\<^sup>3\<close>).
\<close>

record tally =
  studentMetrics :: "student_metrics obj"
  studentMetrics_proto :: "student_metrics option"
  dailyRates :: "number obj"
  presentCount :: nat
  validEntriesCount :: nat
  totalPresentOverall :: nat
  totalRecordsOverall :: nat

text \<open>
  What \<^verbatim>\<open>studentMetrics[rollNo]\<close> reads: an own property; or, through the prototype that a roll
  number \<^verbatim>\<open>__proto__\<close> has set, that object itself under \<^verbatim>\<open>__proto__\<close> and its name and counts
  under \<^verbatim>\<open>name\<close>, \<^verbatim>\<open>present\<close>, \<^verbatim>\<open>absent\<close> and \<^verbatim>\<open>total\<close>; or a property of \<^verbatim>\<open>Object.prototype\<close>. \<open>Other b\<close>
  is a value of truthiness \<open>b\<close> that is no metrics object of the tally: \<^verbatim>\<open>undefined\<close>, a string, a
  number, a built-in function or \<^verbatim>\<open>Object.prototype\<close>.
\<close>

datatype found = OwnMetrics student_metrics | ProtoMetrics student_metrics | Other bool

definition lookup_metrics :: "tally \<Rightarrow> string \<Rightarrow> found" where
  "lookup_metrics t rollNo =
     (case get_prop (studentMetrics t) rollNo of
        Some m \<Rightarrow> OwnMetrics m
      | None \<Rightarrow>
          (case studentMetrics_proto t of
             Some m \<Rightarrow>
               if rollNo = ''__proto__'' then ProtoMetrics m
               else if rollNo = ''name'' then Other (sm_name m \<noteq> [])
               else if rollNo = ''present'' then Other (present m \<noteq> 0)
               else if rollNo = ''absent'' then Other (absent m \<noteq> 0)
               else if rollNo = ''total'' then Other (total m \<noteq> 0)
               else Other (rollNo \<in> set inherited_functions)
           | None \<Rightarrow> Other (rollNo \<in> set inherited_names)))"

text \<open>
  \<^verbatim>\<open>studentMetrics[rollNo].total++\<close> and the like: an update \<open>f\<close> of the metrics object that the
  read yields. On a string or a number the assignment does nothing (the module is not in
  strict mode); on a built-in function or on \<^verbatim>\<open>Object.prototype\<close> it sets a property \<^verbatim>\<open>total\<close>,
  \<^verbatim>\<open>present\<close> or \<^verbatim>\<open>absent\<close> to \<^verbatim>\<open>NaN\<close>, which no read of the tally tells from \<^verbatim>\<open>undefined\<close>.
\<close>

definition bump :: "string \<Rightarrow> (student_metrics \<Rightarrow> student_metrics) \<Rightarrow> tally \<Rightarrow> tally" where
  "bump rollNo f t =
     (case lookup_metrics t rollNo of
        OwnMetrics m \<Rightarrow> t\<lparr>studentMetrics := set_prop rollNo (f m) (studentMetrics t)\<rparr>
      | ProtoMetrics m \<Rightarrow> t\<lparr>studentMetrics_proto := Some (f m)\<rparr>
      | Other b \<Rightarrow> t)"

definition count_entry :: "att \<Rightarrow> tally \<Rightarrow> tally" where
  "count_entry entry t =
     (let rollNo = property_key (att_roll_no entry)
      in if lookup_metrics t rollNo = Other False then t
         else (let t1 = t\<lparr>validEntriesCount := validEntriesCount t + 1\<rparr>;
                   t2 = t1\<lparr>totalRecordsOverall := totalRecordsOverall t1 + 1\<rparr>;
                   t3 = bump rollNo (\<lambda>m. m\<lparr>total := total m + 1\<rparr>) t2
               in if status entry = Some ''present''
                  then (let t4 = bump rollNo (\<lambda>m. m\<lparr>present := present m + 1\<rparr>) t3;
                            t5 = t4\<lparr>presentCount := presentCount t4 + 1\<rparr>
                        in t5\<lparr>totalPresentOverall := totalPresentOverall t5 + 1\<rparr>)
                  else if status entry = Some ''absent''
                  then bump rollNo (\<lambda>m. m\<lparr>absent := absent m + 1\<rparr>) t3
                  else t3))"

text \<open>\<^verbatim>\<open>m > 0 ? (n / m) * 100 : 0\<close>\<close>

definition percentage :: "nat \<Rightarrow> nat \<Rightarrow> number" where
  "percentage n m = (if 0 < m then js_times (js_divide (of_nat n) (of_nat m)) 100 else Finite 0)"

text \<open>
  One round of the outer loop. \<^verbatim>\<open>dailyRates[date] = ...\<close> assigns a number, which under the key
  \<^verbatim>\<open>__proto__\<close> does nothing.
\<close>

definition count_date :: "bucket obj \<Rightarrow> string \<Rightarrow> tally \<Rightarrow> tally" where
  "count_date attData date t =
     (let t1 = fold count_entry (on_date attData date) (t\<lparr>presentCount := 0, validEntriesCount := 0\<rparr>);
          rate = percentage (presentCount t1) (validEntriesCount t1)
      in if date = ''__proto__'' then t1 else t1\<lparr>dailyRates := set_prop date rate (dailyRates t1)\<rparr>)"

text \<open>\<^verbatim>\<open>students.forEach(s => { studentMetrics[s.roll_no] = {...}; })\<close>, from \<^verbatim>\<open>{}\<close>.\<close>

definition blank_metrics :: "student list \<Rightarrow> student_metrics obj \<times> student_metrics option" where
  "blank_metrics studs =
     fold (\<lambda>s. assign (roll_no s) \<lparr>sm_name = name s, present = 0, absent = 0, total = 0\<rparr>) studs ([], None)"

text \<open>The dates are taken in the order of \<^verbatim>\<open>dates.sort()\<close>, which compares code units.\<close>

definition tally_all :: "student list \<Rightarrow> bucket obj \<Rightarrow> tally" where
  "tally_all studs attData =
     fold (count_date attData) (sort (own_keys attData))
       \<lparr>studentMetrics = fst (blank_metrics studs), studentMetrics_proto = snd (blank_metrics studs),
        dailyRates = [], presentCount = 0, validEntriesCount = 0, totalPresentOverall = 0,
        totalRecordsOverall = 0\<rparr>"

text \<open>
  \<^verbatim>\<open>Object.keys(dailyRates).find(d => dailyRates[d] === val) || "-"\<close>
\<close>

definition day_with :: "number obj \<Rightarrow> number \<Rightarrow> string" where
  "day_with rates val =
     (case array_find (\<lambda>d. case get_prop rates d of None \<Rightarrow> False | Some r \<Rightarrow> identical r val)
             (own_keys rates) of
        None \<Rightarrow> ''-''
      | Some d \<Rightarrow> if d = [] then ''-'' else d)"

record metrics =
  totalClasses :: nat
  avgAttendance :: number
  bestDay :: "string \<times> number"
  worstDay :: "string \<times> number"
  metrics_students :: "student_metrics obj"
  metrics_rates :: "number obj"

definition calculateMetrics :: "student list \<Rightarrow> bucket obj \<Rightarrow> metrics" where
  "calculateMetrics studs attData =
     (let t = tally_all studs attData;
          rates = map snd (own_entries (dailyRates t))
      in \<lparr>totalClasses = length (own_keys attData),
          avgAttendance = percentage (totalPresentOverall t) (totalRecordsOverall t),
          bestDay = (if 0 < length (own_keys (dailyRates t))
                     then (day_with (dailyRates t) (Math_max rates), Math_max rates)
                     else (''-'', Finite 0)),
          worstDay = (if 0 < length (own_keys (dailyRates t))
                      then (day_with (dailyRates t) (Math_min rates), Math_min rates)
                      else (''-'', Finite 100)),
          metrics_students = studentMetrics t,
          metrics_rates = dailyRates t\<rparr>)"

subsection \<open>\<^verbatim>\<open>GET /api/metrics\<close>\<close>

definition day_text :: "string \<times> number \<Rightarrow> string" where
  "day_text day = (if fst day \<noteq> ''-'' then fst day @ '' ('' @ toFixed1 (snd day) @ ''%)'' else ''-'')"

record metrics_json =
  json_totalClasses :: nat
  json_avgAttendance :: string
  json_bestDay :: string
  json_worstDay :: string
  json_dailyRates :: "number obj"

definition b_get_metrics :: "b_server \<Rightarrow> metrics_json" where
  "b_get_metrics s =
     (let m = calculateMetrics (b_students s) (attendanceData s)
      in \<lparr>json_totalClasses = totalClasses m,
          json_avgAttendance = toFixed1 (avgAttendance m) @ ''%'',
          json_bestDay = day_text (bestDay m),
          json_worstDay = day_text (worstDay m),
          json_dailyRates = metrics_rates m\<rparr>)"

subsection \<open>\<^verbatim>\<open>GET /api/rankings\<close>\<close>

record summary =
  summary_roll_no :: string
  summary_name :: string
  attendance_percent :: number

text \<open>\<^verbatim>\<open>Object.entries(studentMetrics)\<close> lists the own properties.\<close>

definition studentSummary :: "student list \<Rightarrow> bucket obj \<Rightarrow> summary list" where
  "studentSummary studs attData =
     map (\<lambda>(rollNo, m). \<lparr>summary_roll_no = rollNo, summary_name = sm_name m,
                          attendance_percent = percentage (present m) (total m)\<rparr>)
         (own_entries (metrics_students (calculateMetrics studs attData)))"

definition by_percent_then_name :: "(string \<Rightarrow> string \<Rightarrow> int) \<Rightarrow> summary \<Rightarrow> summary \<Rightarrow> int" where
  "by_percent_then_name lc a b =
     (if \<not> identical (attendance_percent b) (attendance_percent a)
      then sign_of_difference (attendance_percent b) (attendance_percent a)
      else lc (summary_name a) (summary_name b))"

text \<open>
  The pass that numbers the sorted summaries, with the loop variables \<^verbatim>\<open>currentRank\<close>,
  \<^verbatim>\<open>lastPercent\<close> and \<^verbatim>\<open>studentsAtRank\<close> as arguments.
\<close>

fun add_rank :: "nat \<Rightarrow> number \<Rightarrow> nat \<Rightarrow> summary list \<Rightarrow> (nat \<times> summary) list" where
  "add_rank currentRank lastPercent studentsAtRank [] = []"
| "add_rank currentRank lastPercent studentsAtRank (x # xs) =
     (if \<not> identical (attendance_percent x) lastPercent
      then (currentRank + (studentsAtRank + 1), x) #
             add_rank (currentRank + (studentsAtRank + 1)) (attendance_percent x) 0 xs
      else (currentRank, x) # add_rank currentRank lastPercent (studentsAtRank + 1) xs)"

definition ranked :: "(string \<Rightarrow> string \<Rightarrow> int) \<Rightarrow> student list \<Rightarrow> bucket obj \<Rightarrow> (nat \<times> summary) list" where
  "ranked lc studs attData =
     add_rank 0 (Finite (- 1)) 0 (array_sort (by_percent_then_name lc) (studentSummary studs attData))"

record ranking =
  rank :: nat
  ranking_roll_no :: string
  ranking_name :: string
  ranking_percent :: string

definition b_get_rankings :: "(string \<Rightarrow> string \<Rightarrow> int) \<Rightarrow> b_server \<Rightarrow> ranking list" where
  "b_get_rankings lc s =
     map (\<lambda>(r, x). \<lparr>rank = r, ranking_roll_no = summary_roll_no x, ranking_name = summary_name x,
                    ranking_percent = toFixed1 (attendance_percent x)\<rparr>)
         (ranked lc (b_students s) (attendanceData s))"

section \<open>Notions used in the statements\<close>

text \<open>A process that has just started, with no data file and nothing added to a built-in object.\<close>

definition fresh :: "'v server" where
  "fresh = \<lparr>data_file = ENOENT, heap = (\<lambda>r. empty_doc), next_ref = 0, dataCache = None,
              on_functions = (\<lambda>f. []), on_prototype = []\<rparr>"

text \<open>The document that a read of the data file yields.\<close>

definition stored_doc :: "'v server \<Rightarrow> 'v doc" where
  "stored_doc s = (case data_file s of Parsed (JObject raw) \<Rightarrow> backfill raw | _ \<Rightarrow> empty_doc)"

text \<open>The roster is in the order of \<^verbatim>\<open>localeCompare\<close> on the roll numbers.\<close>

definition roll_no_order :: "(string \<Rightarrow> string \<Rightarrow> int) \<Rightarrow> student list \<Rightarrow> bool" where
  "roll_no_order lc ss = sorted_wrt (\<lambda>a b. lc (roll_no a) (roll_no b) \<le> 0) ss"

text \<open>The record that \<^verbatim>\<open>POST /api/students\<close> creates from a request.\<close>

definition created :: "student_req \<Rightarrow> student" where
  "created req = \<lparr>roll_no = (case req_roll_no req of Some rn \<Rightarrow> rn | None \<Rightarrow> []),
                   name = (case req_name req of Some nm \<Rightarrow> nm | None \<Rightarrow> []),
                   course = Some (default_course (req_course req))\<rparr>"

text \<open>Some student of the roster has the roll number.\<close>

definition known :: "string \<Rightarrow> student list \<Rightarrow> bool" where
  "known rn ss \<longleftrightarrow> rn \<in> set (map roll_no ss)"

text \<open>The bucket of a subject and a date, when there is one.\<close>

definition bucket_at :: "bucket obj obj \<Rightarrow> string \<Rightarrow> string \<Rightarrow> bucket option" where
  "bucket_at a subject date = (case get_prop a subject of None \<Rightarrow> None | Some dates \<Rightarrow> get_prop dates date)"

text \<open>
  What \<^verbatim>\<open>POST /api/attendance/:subject/:date\<close> makes of the attendance object: the subject
  is created when missing, then the bucket of the date is assigned.
\<close>

definition recorded :: "string \<Rightarrow> string \<Rightarrow> bucket \<Rightarrow> bucket obj obj \<Rightarrow> bucket obj obj" where
  "recorded subject date l a =
     set_prop subject (set_prop date l (case get_prop a subject of None \<Rightarrow> [] | Some dates \<Rightarrow> dates)) a"

text \<open>
  A subject under which an attendance object reads nothing but an own property: it names no
  property of \<^verbatim>\<open>Object.prototype\<close>, built in or added by a request. And a date that no request
  has added to \<^verbatim>\<open>Object.prototype\<close>.
\<close>

definition plain :: "'v server \<Rightarrow> string \<Rightarrow> bool" where
  "plain s subject \<longleftrightarrow> subject \<notin> set inherited_names \<and> get_prop (on_prototype s) subject = None"

definition not_inherited :: "'v server \<Rightarrow> string \<Rightarrow> bool" where
  "not_inherited s date \<longleftrightarrow> get_prop (on_prototype s) date = None"

text \<open>No two students of the roster share a roll number.\<close>

definition unique_roll_no :: "student list \<Rightarrow> bool" where
  "unique_roll_no ss \<longleftrightarrow> distinct (map roll_no ss)"

text \<open>The roster of the stored document.\<close>

definition roster :: "'v server \<Rightarrow> student list" where
  "roster s = students (stored_doc s)"

text \<open>Example requests.\<close>

definition alice :: student_req where
  "alice = \<lparr>req_roll_no = Some ''001'', req_name = Some ''Alice'', req_course = None\<rparr>"

definition nameless :: student_req where
  "nameless = \<lparr>req_roll_no = Some ''003'', req_name = Some [], req_course = None\<rparr>"

text \<open>A process whose data file holds a roster of one student and no attendance.\<close>

definition enrolled :: "'v server" where
  "enrolled = fresh\<lparr>data_file := stringify
     \<lparr>students = [\<lparr>roll_no = ''001'', name = ''Alice'', course = Some ''N/A''\<rparr>], attendance = []\<rparr>\<rparr>"

text \<open>
  The document that the cached server works on: the object behind \<^verbatim>\<open>dataCache\<close> when it is
  set, what the data file yields otherwise.
\<close>

definition a_doc :: "'v server \<Rightarrow> 'v doc" where
  "a_doc s = (case dataCache s of Some r \<Rightarrow> heap s r | None \<Rightarrow> stored_doc s)"

text \<open>
  The one case in which \<^verbatim>\<open>loadData\<close> of the cached server throws: nothing cached, no data
  file, and the write of the default file fails.
\<close>

definition a_load_fails :: "bool \<Rightarrow> 'v server \<Rightarrow> bool" where
  "a_load_fails wl s \<longleftrightarrow> dataCache s = None \<and> data_file s = ENOENT \<and> \<not> wl"

text \<open>An entry that names a student of the roster.\<close>

definition names_student :: "student list \<Rightarrow> att \<Rightarrow> bool" where
  "names_student ss a \<longleftrightarrow> (case att_roll_no a of None \<Rightarrow> False | Some rn \<Rightarrow> known rn ss)"

text \<open>An entry with its \<^verbatim>\<open>name\<close> left out.\<close>

definition nameless_entry :: "att \<Rightarrow> att" where
  "nameless_entry a = a\<lparr>att_name := None\<rparr>"


text \<open>
  A process of \<^verbatim>\<open>src/server.js\<close> whose data file holds one student and one bucket with an
  entry of that student, and the same for the server with flat attendance.
\<close>

definition physics_day :: "bucket obj server" where
  "physics_day = fresh\<lparr>data_file := stringify
     \<lparr>students = [\<lparr>roll_no = ''001'', name = ''Alice'', course = Some ''N/A''\<rparr>],
      attendance = [(''Physics'', [(''2024-01-01'',
        [\<lparr>att_roll_no = Some ''001'', status = Some ''present'', att_name = Some ''Alice''\<rparr>])])]\<rparr>\<rparr>"

definition flat_day :: "bucket server" where
  "flat_day = fresh\<lparr>data_file := stringify
     \<lparr>students = [\<lparr>roll_no = ''001'', name = ''Alice'', course = Some ''N/A''\<rparr>],
      attendance = [(''2024-01-01'',
        [\<lparr>att_roll_no = Some ''001'', status = Some ''present'', att_name = Some ''Alice''\<rparr>])]\<rparr>\<rparr>"

text \<open>A request body with an entry of a student of that roster and an entry of nobody.\<close>

definition roll_call :: "att list" where
  "roll_call = [\<lparr>att_roll_no = Some ''001'', status = Some ''present'', att_name = None\<rparr>,
                \<lparr>att_roll_no = Some ''999'', status = Some ''absent'', att_name = None\<rparr>]"

text \<open>The cached server after its start with no data file: the default file is written.\<close>

definition started :: "bucket server" where
  "started = snd (a_loadData True fresh)"

text \<open>
  A process of \<^verbatim>\<open>src/server.js\<close> after a start with no data file and a \<^verbatim>\<open>POST /api/students\<close>
  whose save failed.
\<close>

definition after_failed_add :: "bucket obj server" where
  "after_failed_add = snd (post_students code_unit_compare True False alice fresh)"

text \<open>A process whose data file holds an object with a roster and no \<^verbatim>\<open>attendance\<close>.\<close>

definition roster_only :: "'v server" where
  "roster_only = fresh\<lparr>data_file := Parsed (JObject
     \<lparr>raw_students = Some [\<lparr>roll_no = ''001'', name = ''Alice'', course = Some ''N/A''\<rparr>],
      raw_attendance = None\<rparr>)\<rparr>"

text \<open>
  The entries of a day's list that name a student of the roster, and the rate that the claim
  gives the day: those marked present over those, times 100.
\<close>

definition valid_entries :: "student list \<Rightarrow> bucket \<Rightarrow> bucket" where
  "valid_entries studs l = filter (names_student studs) l"

definition day_rate :: "student list \<Rightarrow> bucket \<Rightarrow> number" where
  "day_rate studs l =
     percentage (length (filter marked_present (valid_entries studs l))) (length (valid_entries studs l))"




text \<open>
  The two-file server with an empty roster and no attendance, a second student, and the
  end-to-end example: two students added, then one day recorded with one present and one
  absent.
\<close>

definition b_empty :: b_server where
  "b_empty = \<lparr>b_students = [], attendanceData = [], attendanceData_proto = None,
              students_file = Some [], attendance_file = Some []\<rparr>"






text \<open>
  One student, and one day recorded with that student present and with an entry whose roll
  number is \<^verbatim>\<open>constructor\<close>, marked absent.
\<close>

definition intruder_day :: "att list" where
  "intruder_day =
     [\<lparr>att_roll_no = Some ''001'', status = Some ''present'', att_name = None\<rparr>,
      \<lparr>att_roll_no = Some ''constructor'', status = Some ''absent'', att_name = None\<rparr>]"

definition intruder_run :: b_server where
  "intruder_run =
     snd (b_post_attendance True ''2024-01-01'' (Array intruder_day)
       (snd (b_post_students True alice b_empty)))"

text \<open>
  Two students, of whom the second has the roll number \<^verbatim>\<open>__proto__\<close>, and one day on which the
  first is absent and the second present.
\<close>

definition eve :: student_req where
  "eve = \<lparr>req_roll_no = Some ''__proto__'', req_name = Some ''Eve'', req_course = None\<rparr>"

definition eve_day :: "att list" where
  "eve_day =
     [\<lparr>att_roll_no = Some ''001'', status = Some ''absent'', att_name = None\<rparr>,
      \<lparr>att_roll_no = Some ''__proto__'', status = Some ''present'', att_name = None\<rparr>]"

definition eve_run :: b_server where
  "eve_run =
     snd (b_post_attendance True ''2024-01-01'' (Array eve_day)
       (snd (b_post_students True eve (snd (b_post_students True alice b_empty)))))"

text \<open>
  A roster of three and ten recorded days: Bilal and Asha present on nine of them, Chand on
  eight.
\<close>

definition trio :: "student list" where
  "trio = [\<lparr>roll_no = ''101'', name = ''Bilal'', course = None\<rparr>,
           \<lparr>roll_no = ''102'', name = ''Chand'', course = None\<rparr>,
           \<lparr>roll_no = ''103'', name = ''Asha'', course = None\<rparr>]"

definition mark_for :: "string \<Rightarrow> bool \<Rightarrow> att" where
  "mark_for rn here = \<lparr>att_roll_no = Some rn, status = Some (if here then ''present'' else ''absent''),
                   att_name = None\<rparr>"

definition day_for :: "string \<Rightarrow> bool \<Rightarrow> bool \<Rightarrow> bool \<Rightarrow> string \<times> att list" where
  "day_for date b c a = (date, [mark_for ''101'' b, mark_for ''102'' c, mark_for ''103'' a])"

definition ten_days :: b_server where
  "ten_days =
     \<lparr>b_students = trio,
      attendanceData =
        [day_for ''2024-01-01'' True True True, day_for ''2024-01-02'' True True True,
         day_for ''2024-01-03'' True True True, day_for ''2024-01-04'' True True True,
         day_for ''2024-01-05'' True True True, day_for ''2024-01-06'' True True True,
         day_for ''2024-01-07'' True True True, day_for ''2024-01-08'' True True True,
         day_for ''2024-01-09'' True False True, day_for ''2024-01-10'' False False False],
      attendanceData_proto = None, students_file = None, attendance_file = None\<rparr>"

text \<open>The rates of the days that \<^verbatim>\<open>GET /api/metrics\<close> sends: \<^verbatim>\<open>dailyRates\<close>.\<close>

definition day_rates :: "b_server \<Rightarrow> number obj" where
  "day_rates s = metrics_rates (calculateMetrics (b_students s) (attendanceData s))"



text \<open>A request body with one entry, of the student of the roster of \<^const>\<open>enrolled\<close>.\<close>

definition alice_present :: "att list" where
  "alice_present = [\<lparr>att_roll_no = Some ''001'', status = Some ''present'', att_name = None\<rparr>]"

text \<open>
  The process \<^const>\<open>enrolled\<close> of \<^verbatim>\<open>src/server.js\<close> after a recording under the subject
  \<^verbatim>\<open>constructor\<close>, that process after the deletion of the student, and a process started anew
  on the data file of another.
\<close>

definition constructor_day :: "bucket obj server" where
  "constructor_day =
     snd (post_attendance decode_ascii True True ''constructor'' ''2024-01-01'' (Array alice_present) enrolled)"

definition after_removal :: "bucket obj server" where
  "after_removal = snd (delete_students True True ''001'' constructor_day)"

definition restarted :: "'v server \<Rightarrow> 'v server" where
  "restarted s = fresh\<lparr>data_file := data_file s\<rparr>"

section \<open>Properties of the store, of sorting and of objects\<close>

lemmas store_defs = save_with_def saveData_def a_saveData_def cache_new_def alloc_def mutate_def

lemma backfill_stringify: "stored_doc (s\<lparr>data_file := stringify d\<rparr>) = d"
  by (simp add: stored_doc_def stringify_def backfill_def)

lemma stored_doc_dataCache: "stored_doc (s\<lparr>dataCache := c\<rparr>) = stored_doc s"
  by (simp add: stored_doc_def)

lemma fst_loadData: "fst (loadData w s) = next_ref s"
  by (simp add: loadData_def store_defs split: file_state.splits json.splits)

lemma heap_loadData: "heap (snd (loadData w s)) (next_ref s) = stored_doc s"
  by (simp add: loadData_def store_defs stored_doc_def split: file_state.splits json.splits)

lemma stored_doc_loadData: "stored_doc (snd (loadData w s)) = stored_doc s"
  by (simp add: loadData_def store_defs stored_doc_def stringify_def backfill_def empty_doc_def
      split: file_state.splits json.splits)

lemma loadData_cases:
  obtains s1 where "loadData w s = (next_ref s, s1)" "heap s1 (next_ref s) = stored_doc s"
    "stored_doc s1 = stored_doc s"
  using fst_loadData[of w s] heap_loadData[of w s] stored_doc_loadData[of w s]
  by (cases "loadData w s") auto

lemma stored_doc_mutate: "stored_doc (mutate r f s) = stored_doc s"
  by (simp add: stored_doc_def mutate_def)

lemma heap_mutate: "heap (mutate r f s) r = f (heap s r)"
  by (simp add: mutate_def)

lemma saveData_True:
  "saveData True r s = (Inr (), s\<lparr>data_file := stringify (heap s r), dataCache := Some r\<rparr>)"
  by (simp add: saveData_def save_with_def)

lemma saveData_False: "saveData False r s = (Inl (Error ''Failed to save data to the server file.''), s)"
  by (simp add: saveData_def save_with_def)

lemma set_insort_cmp: "set (insort_cmp cmp x xs) = insert x (set xs)"
  by (induction xs) auto

lemma mset_insort_cmp: "mset (insort_cmp cmp x xs) = add_mset x (mset xs)"
  by (induction xs) auto

lemma mset_array_sort: "mset (array_sort cmp xs) = mset xs"
  by (induction xs) (auto simp: array_sort_def mset_insort_cmp)

lemma set_array_sort: "set (array_sort cmp xs) = set xs"
  using mset_array_sort[of cmp xs] by (metis set_mset_mset)

lemma sorted_insort_cmp:
  assumes tot: "\<And>a b. cmp a b \<le> 0 \<or> cmp b a \<le> 0"
    and tr: "\<And>a b c. cmp a b \<le> 0 \<Longrightarrow> cmp b c \<le> 0 \<Longrightarrow> cmp a c \<le> 0"
  shows "sorted_wrt (\<lambda>a b. cmp a b \<le> 0) xs \<Longrightarrow> sorted_wrt (\<lambda>a b. cmp a b \<le> 0) (insort_cmp cmp x xs)"
proof (induction xs)
  case Nil
  then show ?case by simp
next
  case (Cons y ys)
  show ?case
  proof (cases "cmp x y \<le> 0")
    case True
    with Cons.prems tr show ?thesis by auto
  next
    case False
    with tot have "cmp y x \<le> 0" by blast
    with Cons False show ?thesis by (auto simp: set_insort_cmp)
  qed
qed

lemma sorted_array_sort:
  assumes tot: "\<And>a b. cmp a b \<le> 0 \<or> cmp b a \<le> 0"
    and tr: "\<And>a b c. cmp a b \<le> 0 \<Longrightarrow> cmp b c \<le> 0 \<Longrightarrow> cmp a c \<le> 0"
  shows "sorted_wrt (\<lambda>a b. cmp a b \<le> 0) (array_sort cmp xs)"
proof (induction xs)
  case Nil
  show ?case by (simp add: array_sort_def)
next
  case (Cons x xs)
  have "array_sort cmp (x # xs) = insort_cmp cmp x (array_sort cmp xs)"
    by (simp add: array_sort_def)
  with Cons sorted_insort_cmp[OF tot tr] show ?case by simp
qed

lemma collation_total: "collation lc \<Longrightarrow> lc a b \<le> 0 \<or> lc b a \<le> 0"
  unfolding collation_def by (metis not_less order_less_imp_le)

lemma collation_trans: "collation lc \<Longrightarrow> lc a b \<le> 0 \<Longrightarrow> lc b c \<le> 0 \<Longrightarrow> lc a c \<le> 0"
  unfolding collation_def by blast

lemma collation_code_unit_compare: "collation code_unit_compare"
  unfolding collation_def code_unit_compare_def by (auto split: if_splits)

lemma roll_no_order_sort: "collation lc \<Longrightarrow> roll_no_order lc (array_sort (by_roll_no lc) ss)"
  unfolding roll_no_order_def
  using sorted_array_sort[of "by_roll_no lc" ss]
  by (auto simp: by_roll_no_def dest: collation_total collation_trans)

lemma array_find_None: "array_find p xs = None \<longleftrightarrow> (\<forall>x\<in>set xs. \<not> p x)"
  by (induction xs) auto

lemma array_find_Some: "array_find p xs = Some x \<Longrightarrow> x \<in> set xs \<and> p x"
  by (induction xs) (auto split: if_splits)

lemma get_prop_set_prop: "get_prop (set_prop k v ob) k' = (if k' = k then Some v else get_prop ob k')"
  by (induction ob) (auto simp: get_prop_def)

lemma set_prop_same: "get_prop ob k = Some v \<Longrightarrow> set_prop k v ob = ob"
  by (induction ob) (auto simp: get_prop_def split: if_splits)

lemma set_prop_twice: "set_prop k v (set_prop k v' ob) = set_prop k v ob"
  by (induction ob) auto

lemma get_prop_None: "get_prop ob k = None \<longleftrightarrow> k \<notin> fst ` set ob"
  by (simp add: get_prop_def map_of_eq_None_iff)


lemma mset_own_entries: "mset (own_entries ob) = mset ob"
  by (simp add: own_entries_def)

lemma set_own_keys: "set (own_keys ob) = fst ` set ob"
  using mset_own_entries[of ob] by (metis own_keys_def set_map set_mset_mset)

lemma get_prop_update_prop:
  "get_prop (update_prop f k ob) k' = (if k' = k then map_option f (get_prop ob k') else get_prop ob k')"
  by (auto simp: update_prop_def get_prop_set_prop split: option.splits)

section \<open>The roster and the attendance of \<^verbatim>\<open>src/server.js\<close>\<close>

lemma find_has_roll_no: "array_find (has_roll_no rn) ss = None \<longleftrightarrow> \<not> known rn ss"
  by (auto simp: array_find_None has_roll_no_def known_def)

lemma post_students_invalid:
  "\<not> truthy (req_roll_no req) \<or> \<not> truthy (req_name req) \<Longrightarrow>
   post_students lc wl ws req s = (Response 400 (Message ''Roll number and name are required.''), s)"
  by (simp add: post_students_def)

lemma post_students_duplicate:
  assumes "truthy (req_roll_no req)" "truthy (req_name req)"
    and "known (roll_no (created req)) (students (stored_doc s))"
  shows "post_students lc wl ws req s =
         (Response 400 (Message (''Student with roll number '' @ roll_no (created req) @ '' already exists.'')),
          snd (loadData wl s))"
proof -
  obtain rn nm where r: "req_roll_no req = Some rn" "req_name req = Some nm"
    using assms(1,2) by (auto simp: truthy_def split: option.splits)
  obtain s1 where l: "loadData wl s = (next_ref s, s1)" "heap s1 (next_ref s) = stored_doc s"
    by (rule loadData_cases)
  from assms(3) r have "array_find (has_roll_no rn) (students (stored_doc s)) \<noteq> None"
    by (simp add: find_has_roll_no created_def)
  then obtain e where "array_find (has_roll_no rn) (students (stored_doc s)) = Some e" by auto
  with assms(1,2) r l show ?thesis
    by (simp add: post_students_def created_def)
qed

lemma post_students_new:
  assumes "truthy (req_roll_no req)" "truthy (req_name req)"
    and "\<not> known (roll_no (created req)) (students (stored_doc s))"
  shows "fst (post_students lc wl ws req s) =
           (if ws then Response 201 (StudentJson (created req))
            else Response 500 (Message ''Failed to save data to the server file.''))"
    and "stored_doc (snd (post_students lc wl ws req s)) =
           (if ws then (stored_doc s)\<lparr>students := array_sort (by_roll_no lc) (students (stored_doc s) @ [created req])\<rparr>
            else stored_doc s)"
proof -
  obtain rn nm where r: "req_roll_no req = Some rn" "req_name req = Some nm"
    using assms(1,2) by (auto simp: truthy_def split: option.splits)
  obtain s1 where l: "loadData wl s = (next_ref s, s1)" "heap s1 (next_ref s) = stored_doc s"
    "stored_doc s1 = stored_doc s"
    by (rule loadData_cases)
  from assms(3) r have f: "array_find (has_roll_no rn) (students (stored_doc s)) = None"
    by (simp add: find_has_roll_no created_def)
  have c: "created req = \<lparr>roll_no = rn, name = nm, course = Some (default_course (req_course req))\<rparr>"
    using r by (simp add: created_def)
  show "fst (post_students lc wl ws req s) =
           (if ws then Response 201 (StudentJson (created req))
            else Response 500 (Message ''Failed to save data to the server file.''))"
    using assms(1,2) r l f c
    by (cases ws) (simp_all add: post_students_def Let_def saveData_True saveData_False error_message_def)
  show "stored_doc (snd (post_students lc wl ws req s)) =
           (if ws then (stored_doc s)\<lparr>students := array_sort (by_roll_no lc) (students (stored_doc s) @ [created req])\<rparr>
            else stored_doc s)"
    using assms(1,2) r l f c
    by (cases ws) (simp_all add: post_students_def Let_def saveData_True saveData_False
        backfill_stringify stored_doc_dataCache heap_mutate stored_doc_mutate)
qed

lemma post_students_stored:
  "stored_doc (snd (post_students lc wl ws req s)) = stored_doc s \<or>
   (\<not> known (roll_no (created req)) (students (stored_doc s)) \<and>
    stored_doc (snd (post_students lc wl ws req s)) =
      (stored_doc s)\<lparr>students := array_sort (by_roll_no lc) (students (stored_doc s) @ [created req])\<rparr>)"
proof (cases "truthy (req_roll_no req) \<and> truthy (req_name req)")
  case False
  then show ?thesis using post_students_invalid[of req lc wl ws s] by auto
next
  case True
  show ?thesis
  proof (cases "known (roll_no (created req)) (students (stored_doc s))")
    case True
    with \<open>truthy (req_roll_no req) \<and> truthy (req_name req)\<close> show ?thesis
      using post_students_duplicate[of req s lc wl ws] by (simp add: stored_doc_loadData)
  next
    case False
    with True show ?thesis using post_students_new(2)[of req s lc wl ws] by auto
  qed
qed

lemma get_prop_fold_filter:
  "get_prop (fold (update_prop (filter p)) ks ob) k =
     (if k \<in> set ks then map_option (filter p) (get_prop ob k) else get_prop ob k)"
proof (induction ks arbitrary: ob)
  case Nil
  show ?case by simp
next
  case (Cons k0 ks)
  show ?case
    by (cases "get_prop ob k") (auto simp: Cons get_prop_update_prop)
qed

lemma get_prop_purge_dates:
  "get_prop (purge_dates rn dates) date = map_option (filter (other_than rn)) (get_prop dates date)"
proof (cases "get_prop dates date")
  case None
  then show ?thesis by (simp add: purge_dates_def get_prop_fold_filter)
next
  case (Some l)
  then have "date \<in> set (own_keys dates)"
    using get_prop_None[of dates date] by (auto simp: set_own_keys)
  with Some show ?thesis by (simp add: purge_dates_def get_prop_fold_filter)
qed

lemma on_date_purge_dates: "on_date (purge_dates rn dates) date = filter (other_than rn) (on_date dates date)"
  by (simp add: on_date_def get_prop_purge_dates split: option.splits)

lemma bucket_at_update_prop:
  "bucket_at (update_prop (purge_dates rn) k a) subject date =
     (if subject = k then map_option (filter (other_than rn)) (bucket_at a subject date)
      else bucket_at a subject date)"
  by (auto simp: bucket_at_def get_prop_update_prop get_prop_purge_dates split: option.splits)

lemma bucket_at_fold:
  "bucket_at (fold (update_prop (purge_dates rn)) ks a) subject date =
     (if subject \<in> set ks then map_option (filter (other_than rn)) (bucket_at a subject date)
      else bucket_at a subject date)"
proof (induction ks arbitrary: a)
  case Nil
  show ?case by simp
next
  case (Cons k0 ks)
  show ?case
    by (cases "bucket_at a subject date") (auto simp: Cons bucket_at_update_prop)
qed

lemma bucket_at_purge_subjects:
  "bucket_at (purge_subjects rn a) subject date = map_option (filter (other_than rn)) (bucket_at a subject date)"
proof (cases "get_prop a subject")
  case None
  then show ?thesis by (simp add: purge_subjects_def bucket_at_fold) (simp add: bucket_at_def)
next
  case (Some ds)
  then have "subject \<in> set (own_keys a)" using get_prop_None[of a subject] by (auto simp: set_own_keys)
  then show ?thesis by (simp add: purge_subjects_def bucket_at_fold)
qed

lemma loadData_objects:
  "on_functions (snd (loadData w s)) = on_functions s" "on_prototype (snd (loadData w s)) = on_prototype s"
  by (simp_all add: loadData_def store_defs split: file_state.splits json.splits)

lemma stored_doc_objects:
  "stored_doc (s\<lparr>on_functions := f\<rparr>) = stored_doc s" "stored_doc (s\<lparr>on_prototype := p\<rparr>) = stored_doc s"
  by (simp_all add: stored_doc_def)

lemma objects_mutate:
  "on_functions (mutate r f s) = on_functions s" "on_prototype (mutate r f s) = on_prototype s"
  by (simp_all add: mutate_def)

lemma plain_cong: "on_prototype s' = on_prototype s \<Longrightarrow> plain s' subject = plain s subject"
  by (simp add: plain_def)

lemma not_inherited_cong: "on_prototype s' = on_prototype s \<Longrightarrow> not_inherited s' date = not_inherited s date"
  by (simp add: not_inherited_def)

lemma lookup_subject_cong:
  "on_prototype s' = on_prototype s \<Longrightarrow> lookup_subject s' a subject = lookup_subject s a subject"
  by (simp add: lookup_subject_def split: option.splits)

lemma or_inherited_cong:
  "on_prototype s' = on_prototype s \<Longrightarrow> or_inherited s' date own = or_inherited s date own"
  by (cases own) (simp_all add: or_inherited_def inherited_bucket_def)

lemma lookup_date_cong:
  "on_functions s' = on_functions s \<Longrightarrow> on_prototype s' = on_prototype s \<Longrightarrow>
   lookup_date s' h date = lookup_date s h date"
  by (cases h) (simp_all add: lookup_date_def or_inherited_cong[of s' s] inherited_bucket_def
      split: option.splits prod.splits)

lemma subject_date_cong:
  "on_functions s' = on_functions s \<Longrightarrow> on_prototype s' = on_prototype s \<Longrightarrow>
   subject_date s' a subject date = subject_date s a subject date"
  by (simp add: subject_date_def lookup_subject_cong[of s' s] lookup_date_cong[of s' s])

lemma lookup_subject_plain:
  "plain s subject \<Longrightarrow>
   lookup_subject s a subject = (case get_prop a subject of Some dates \<Rightarrow> OwnObject dates | None \<Rightarrow> NoObject)"
  by (simp add: lookup_subject_def plain_def inherited_names_def split: option.splits)

lemma subject_date_bucket_at:
  "plain s subject \<Longrightarrow> not_inherited s date \<Longrightarrow>
   subject_date s a subject date = (case bucket_at a subject date of None \<Rightarrow> [] | Some l \<Rightarrow> l)"
  by (simp add: subject_date_def lookup_subject_plain lookup_date_def or_inherited_def inherited_bucket_def
      not_inherited_def bucket_at_def split: option.splits)

lemma subject_date_purge_subjects:
  "plain s subject \<Longrightarrow> not_inherited s date \<Longrightarrow>
   subject_date s (purge_subjects rn a) subject date = filter (other_than rn) (subject_date s a subject date)"
  by (simp add: subject_date_bucket_at bucket_at_purge_subjects split: option.splits)

lemma length_filter_same: "length (filter P xs) = length xs \<longleftrightarrow> (\<forall>x\<in>set xs. P x)"
proof
  assume eq: "length (filter P xs) = length xs"
  show "\<forall>x\<in>set xs. P x"
  proof
    fix x assume "x \<in> set xs"
    then show "P x" using length_filter_less[of x xs P] eq by auto
  qed
next
  assume "\<forall>x\<in>set xs. P x"
  then have "filter P xs = xs" by (simp add: filter_id_conv)
  then show "length (filter P xs) = length xs" by simp
qed

lemma none_removed: "length (filter (\<lambda>st. roll_no st \<noteq> rn) ss) = length ss \<longleftrightarrow> \<not> known rn ss"
  by (auto simp: length_filter_same known_def)

lemma delete_students_absent:
  assumes "\<not> known rn (students (stored_doc s))"
  shows "fst (delete_students wl ws rn s) = Response 404 (Message (''Student with roll number '' @ rn @ '' not found.''))"
    and "stored_doc (snd (delete_students wl ws rn s)) = stored_doc s"
    and "heap (snd (delete_students wl ws rn s)) (next_ref s) = stored_doc s"
proof -
  obtain s1 where l: "loadData wl s = (next_ref s, s1)" "heap s1 (next_ref s) = stored_doc s"
    "stored_doc s1 = stored_doc s"
    by (rule loadData_cases)
  have k: "filter (\<lambda>st. roll_no st \<noteq> rn) (students (stored_doc s)) = students (stored_doc s)"
    using assms by (auto simp: known_def filter_id_conv)
  show "fst (delete_students wl ws rn s) = Response 404 (Message (''Student with roll number '' @ rn @ '' not found.''))"
    using l k by (simp add: delete_students_def Let_def heap_mutate)
  show "stored_doc (snd (delete_students wl ws rn s)) = stored_doc s"
    using l k by (simp add: delete_students_def Let_def heap_mutate stored_doc_mutate)
  show "heap (snd (delete_students wl ws rn s)) (next_ref s) = stored_doc s"
    using l k by (simp add: delete_students_def Let_def heap_mutate)
qed

lemma delete_students_present:
  assumes "known rn (students (stored_doc s))"
  shows "fst (delete_students wl ws rn s) =
           (if ws then Response 200 (Message (''Student '' @ rn @ '' deleted successfully.''))
            else Response 500 (Message ''Failed to save data to the server file.''))"
    and "stored_doc (snd (delete_students wl ws rn s)) =
           (if ws then \<lparr>students = filter (\<lambda>st. roll_no st \<noteq> rn) (students (stored_doc s)),
                        attendance = purge_subjects rn (attendance (stored_doc s))\<rparr>
            else stored_doc s)"
proof -
  obtain s1 where l: "loadData wl s = (next_ref s, s1)" "heap s1 (next_ref s) = stored_doc s"
    "stored_doc s1 = stored_doc s"
    by (rule loadData_cases)
  have k: "length (filter (\<lambda>st. roll_no st \<noteq> rn) (students (stored_doc s))) \<noteq> length (students (stored_doc s))"
    using assms by (simp add: none_removed)
  show "fst (delete_students wl ws rn s) =
           (if ws then Response 200 (Message (''Student '' @ rn @ '' deleted successfully.''))
            else Response 500 (Message ''Failed to save data to the server file.''))"
    using l k by (cases ws) (simp_all add: delete_students_def Let_def heap_mutate saveData_True saveData_False error_message_def)
  show "stored_doc (snd (delete_students wl ws rn s)) =
           (if ws then \<lparr>students = filter (\<lambda>st. roll_no st \<noteq> rn) (students (stored_doc s)),
                        attendance = purge_subjects rn (attendance (stored_doc s))\<rparr>
            else stored_doc s)"
    using l k by (cases ws) (simp_all add: delete_students_def Let_def heap_mutate saveData_True saveData_False
        backfill_stringify stored_doc_dataCache stored_doc_mutate)
qed

lemma get_attendance_ok:
  assumes "dec param = Some subject" "date_format date" "subject \<noteq> []"
  shows "fst (get_attendance dec wl param date s) =
           Response 200 (EntriesJson (subject_date s (attendance (stored_doc s)) subject date))"
    and "stored_doc (snd (get_attendance dec wl param date s)) = stored_doc s"
    and "on_functions (snd (get_attendance dec wl param date s)) = on_functions s"
    and "on_prototype (snd (get_attendance dec wl param date s)) = on_prototype s"
proof -
  obtain s1 where l: "loadData wl s = (next_ref s, s1)" "heap s1 (next_ref s) = stored_doc s"
    "stored_doc s1 = stored_doc s"
    by (rule loadData_cases)
  have o: "on_functions s1 = on_functions s" "on_prototype s1 = on_prototype s"
    using loadData_objects[of wl s] l(1) by simp_all
  show "fst (get_attendance dec wl param date s) =
           Response 200 (EntriesJson (subject_date s (attendance (stored_doc s)) subject date))"
    using assms l by (simp add: get_attendance_def subject_date_cong[OF o])
  show "stored_doc (snd (get_attendance dec wl param date s)) = stored_doc s"
    using assms l by (simp add: get_attendance_def)
  show "on_functions (snd (get_attendance dec wl param date s)) = on_functions s"
    using assms l o by (simp add: get_attendance_def)
  show "on_prototype (snd (get_attendance dec wl param date s)) = on_prototype s"
    using assms l o by (simp add: get_attendance_def)
qed

lemma assign_date_own:
  assumes "plain s subject" "get_prop (attendance (heap s data)) subject = Some dates"
  shows "assign_date data subject date l s =
           mutate data (\<lambda>d. d\<lparr>attendance := set_prop subject (set_prop date l dates) (attendance d)\<rparr>) s"
  using assms by (simp add: assign_date_def lookup_subject_plain)

lemma students_assign_date: "students (heap (assign_date data subject date l s) r) = students (heap s r)"
  by (simp add: assign_date_def mutate_def split: holder.splits)

lemma data_file_assign_date: "data_file (assign_date data subject date l s) = data_file s"
  by (simp add: assign_date_def mutate_def split: holder.splits)

lemma post_attendance_ok:
  assumes "dec param = Some subject" "date_format date" "subject \<noteq> []" "list_all valid_item l"
    and "plain s subject"
  shows "fst (post_attendance dec wl ws param date (Array l) s) =
           (if ws then Response 200 (Message (''Attendance for '' @ subject @ '' on '' @ date @ '' saved successfully.''))
            else Response 500 (Message ''Server failed to save the attendance data file.''))"
    and "stored_doc (snd (post_attendance dec wl ws param date (Array l) s)) =
           (if ws then (stored_doc s)\<lparr>attendance :=
                          recorded subject date (enrichedAttendance (students (stored_doc s)) l)
                            (attendance (stored_doc s))\<rparr>
            else stored_doc s)"
    and "on_functions (snd (post_attendance dec wl ws param date (Array l) s)) = on_functions s"
    and "on_prototype (snd (post_attendance dec wl ws param date (Array l) s)) = on_prototype s"
proof -
  obtain s1 where l: "loadData wl s = (next_ref s, s1)" "heap s1 (next_ref s) = stored_doc s"
    "stored_doc s1 = stored_doc s"
    by (rule loadData_cases)
  have o: "on_functions s1 = on_functions s" "on_prototype s1 = on_prototype s"
    using loadData_objects[of wl s] l(1) by simp_all
  have p: "plain s1 subject" using assms(5) o(2) by (simp add: plain_def)
  let ?e = "enrichedAttendance (students (stored_doc s)) l"
  let ?a = "attendance (stored_doc s)"
  let ?s2 = "case lookup_subject s1 ?a subject of
               NoObject \<Rightarrow> mutate (next_ref s) (\<lambda>d. d\<lparr>attendance := set_prop subject [] (attendance d)\<rparr>) s1
             | _ \<Rightarrow> s1"
  let ?s3 = "assign_date (next_ref s) subject date ?e ?s2"
  have s3: "?s3 = mutate (next_ref s) (\<lambda>d. d\<lparr>attendance := recorded subject date ?e (attendance d)\<rparr>) s1"
  proof (cases "get_prop ?a subject")
    case None
    then have s2: "?s2 = mutate (next_ref s) (\<lambda>d. d\<lparr>attendance := set_prop subject [] (attendance d)\<rparr>) s1"
      using p by (simp add: lookup_subject_plain)
    have p2: "plain ?s2 subject" using p by (simp add: s2 plain_def objects_mutate)
    have g: "get_prop (attendance (heap ?s2 (next_ref s))) subject = Some []"
      by (simp add: s2 heap_mutate get_prop_set_prop)
    show ?thesis
      unfolding assign_date_own[OF p2 g]
      using None l(2) by (simp add: s2 mutate_def recorded_def set_prop_twice)
  next
    case (Some dates)
    then have s2: "?s2 = s1" using p by (simp add: lookup_subject_plain)
    have g: "get_prop (attendance (heap s1 (next_ref s))) subject = Some dates"
      using Some l(2) by simp
    show ?thesis
      unfolding s2 assign_date_own[OF p g]
      using Some l(2) by (simp add: mutate_def recorded_def)
  qed
  have post: "post_attendance dec wl ws param date (Array l) s =
      (case saveData ws (next_ref s) ?s3 of
         (Inr u, s4) \<Rightarrow>
           (Response 200 (Message (''Attendance for '' @ subject @ '' on '' @ date @ '' saved successfully.'')), s4)
       | (Inl e, s4) \<Rightarrow> (Response 500 (Message (save_failed e)), s4))"
    using assms(1-4) l by (simp add: post_attendance_def Let_def)
  show "fst (post_attendance dec wl ws param date (Array l) s) =
           (if ws then Response 200 (Message (''Attendance for '' @ subject @ '' on '' @ date @ '' saved successfully.''))
            else Response 500 (Message ''Server failed to save the attendance data file.''))"
    unfolding post by (cases ws) (simp_all add: saveData_True saveData_False save_failed_def)
  show "stored_doc (snd (post_attendance dec wl ws param date (Array l) s)) =
           (if ws then (stored_doc s)\<lparr>attendance :=
                          recorded subject date (enrichedAttendance (students (stored_doc s)) l)
                            (attendance (stored_doc s))\<rparr>
            else stored_doc s)"
    unfolding post s3 using l
    by (cases ws) (simp_all add: saveData_True saveData_False backfill_stringify stored_doc_dataCache
        stored_doc_mutate heap_mutate)
  show "on_functions (snd (post_attendance dec wl ws param date (Array l) s)) = on_functions s"
    unfolding post s3 using o
    by (cases ws) (simp_all add: saveData_True saveData_False objects_mutate)
  show "on_prototype (snd (post_attendance dec wl ws param date (Array l) s)) = on_prototype s"
    unfolding post s3 using o
    by (cases ws) (simp_all add: saveData_True saveData_False objects_mutate)
qed

lemma get_prop_Nil: "get_prop [] k = None"
  by (simp add: get_prop_def)

lemma bucket_at_recorded:
  "bucket_at (recorded subject date l a) subject' date' =
     (if subject' = subject \<and> date' = date then Some l else bucket_at a subject' date')"
  by (auto simp: recorded_def bucket_at_def get_prop_set_prop get_prop_Nil split: option.splits)

lemma recorded_twice: "recorded subject date l (recorded subject date l' a) = recorded subject date l a"
  by (auto simp: recorded_def get_prop_set_prop set_prop_twice split: option.splits)

lemma distinct_insort_cmp:
  "distinct (map f (insort_cmp cmp x xs)) \<longleftrightarrow> distinct (map f (x # xs))"
  by (induction xs) (auto simp: set_insort_cmp)

lemma distinct_array_sort: "distinct (map f (array_sort cmp xs)) \<longleftrightarrow> distinct (map f xs)"
proof -
  have "mset (map f (array_sort cmp xs)) = mset (map f xs)"
    by (simp add: mset_array_sort)
  then show ?thesis by (rule mset_eq_imp_distinct_iff)
qed

lemma roll_no_order_filter: "roll_no_order lc ss \<Longrightarrow> roll_no_order lc (filter P ss)"
  by (simp add: roll_no_order_def sorted_wrt_filter)

lemma roster_post_students:
  "roster (snd (post_students lc wl ws req s)) = roster s \<or>
   (\<not> known (roll_no (created req)) (roster s) \<and>
    roster (snd (post_students lc wl ws req s)) = array_sort (by_roll_no lc) (roster s @ [created req]))"
  using post_students_stored[of lc wl ws req s] by (auto simp: roster_def)

lemma roster_delete_students:
  "roster (snd (delete_students wl ws rn s)) = roster s \<or>
   roster (snd (delete_students wl ws rn s)) = filter (\<lambda>st. roll_no st \<noteq> rn) (roster s)"
  using delete_students_absent(2)[of rn s wl ws] delete_students_present(2)[of rn s wl ws]
  by (cases "known rn (students (stored_doc s))"; cases ws) (auto simp: roster_def)

lemma post_attendance_unchanged:
  assumes "\<not> (\<exists>subject l. dec param = Some subject \<and> date_format date \<and> subject \<noteq> [] \<and>
                body = Array l \<and> list_all valid_item l)"
  shows "snd (post_attendance dec wl ws param date body s) = s"
    and "(\<exists>m. fst (post_attendance dec wl ws param date body s) = Response 400 (Message m)) \<or>
         fst (post_attendance dec wl ws param date body s) = Rejected uri_error"
  using assms
  by (auto simp: post_attendance_def invalid_date_def subject_required_def split: req_body.splits option.splits)

lemma roster_post_attendance: "roster (snd (post_attendance dec wl ws param date body s)) = roster s"
proof (cases "\<exists>subject l. dec param = Some subject \<and> date_format date \<and> subject \<noteq> [] \<and>
                body = Array l \<and> list_all valid_item l")
  case False
  then show ?thesis using post_attendance_unchanged(1)[of dec param date body wl ws s] by simp
next
  case True
  then obtain subject l where a: "dec param = Some subject" "date_format date" "subject \<noteq> []"
    "body = Array l" "list_all valid_item l" by auto
  obtain s1 where l: "loadData wl s = (next_ref s, s1)" "heap s1 (next_ref s) = stored_doc s"
    "stored_doc s1 = stored_doc s"
    by (rule loadData_cases)
  let ?e = "enrichedAttendance (students (stored_doc s)) l"
  let ?s2 = "case lookup_subject s1 (attendance (stored_doc s)) subject of
               NoObject \<Rightarrow> mutate (next_ref s) (\<lambda>d. d\<lparr>attendance := set_prop subject [] (attendance d)\<rparr>) s1
             | _ \<Rightarrow> s1"
  let ?s3 = "assign_date (next_ref s) subject date ?e ?s2"
  have post: "post_attendance dec wl ws param date body s =
      (case saveData ws (next_ref s) ?s3 of
         (Inr u, s4) \<Rightarrow>
           (Response 200 (Message (''Attendance for '' @ subject @ '' on '' @ date @ '' saved successfully.'')), s4)
       | (Inl e, s4) \<Rightarrow> (Response 500 (Message (save_failed e)), s4))"
    using a l by (simp add: post_attendance_def Let_def)
  have h2: "students (heap ?s2 (next_ref s)) = students (stored_doc s)"
    using l(2) by (simp add: heap_mutate split: holder.splits)
  have d2: "data_file ?s2 = data_file s1"
    by (simp add: mutate_def split: holder.splits)
  have h3: "students (heap ?s3 (next_ref s)) = students (stored_doc s)"
    using h2 by (simp add: students_assign_date)
  have d3: "stored_doc ?s3 = stored_doc s"
    using l(3) d2 by (simp add: stored_doc_def data_file_assign_date)
  show ?thesis
    unfolding post roster_def using h3 d3
    by (cases ws) (simp_all add: saveData_True saveData_False backfill_stringify stored_doc_dataCache)
qed

text \<open>
  Claim C6. \<^verbatim>\<open>POST /api/students\<close> of \<^verbatim>\<open>src/server.js\<close>: a request whose roll number or name is
  empty or absent is answered 400 and nothing is read or written; a roll number already in
  the roster is answered 400 and the stored document stays as it is; otherwise, when the
  save succeeds, the answer is 201 with the created record (course \<^verbatim>\<open>"N/A"\<close> when none is
  given), the stored roster is the old one plus that record, in the order of the roll
  numbers, and attendance is untouched. Uniqueness of the roll numbers and the order of the
  roster, once they hold of the stored document, hold after every mutating request
  (adding a student, deleting one, recording attendance), whatever the writes do.
\<close>

theorem add_student:
  assumes "collation lc"
  shows "(\<not> truthy (req_roll_no req) \<or> \<not> truthy (req_name req) \<longrightarrow>
            post_students lc wl ws req s =
              (Response 400 (Message ''Roll number and name are required.''), s))
       \<and> (truthy (req_roll_no req) \<and> truthy (req_name req) \<and> known (roll_no (created req)) (roster s) \<longrightarrow>
            fst (post_students lc wl ws req s) =
              Response 400 (Message (''Student with roll number '' @ roll_no (created req) @ '' already exists.''))
            \<and> stored_doc (snd (post_students lc wl ws req s)) = stored_doc s)
       \<and> (truthy (req_roll_no req) \<and> truthy (req_name req) \<and> \<not> known (roll_no (created req)) (roster s) \<longrightarrow>
            fst (post_students lc wl True req s) = Response 201 (StudentJson (created req))
            \<and> mset (roster (snd (post_students lc wl True req s))) = add_mset (created req) (mset (roster s))
            \<and> roll_no_order lc (roster (snd (post_students lc wl True req s)))
            \<and> attendance (stored_doc (snd (post_students lc wl True req s))) = attendance (stored_doc s))
       \<and> (req_roll_no req = Some rn \<and> req_name req = Some nm \<longrightarrow>
            created req = \<lparr>roll_no = rn, name = nm,
                            course = Some (case req_course req of None \<Rightarrow> ''N/A''
                                           | Some c \<Rightarrow> if c = [] then ''N/A'' else c)\<rparr>)
       \<and> (unique_roll_no (roster s) \<longrightarrow>
            unique_roll_no (roster (snd (post_students lc wl ws req s)))
            \<and> unique_roll_no (roster (snd (delete_students wl ws rn' s)))
            \<and> unique_roll_no (roster (snd (post_attendance dec wl ws param date body s))))
       \<and> (roll_no_order lc (roster s) \<longrightarrow>
            roll_no_order lc (roster (snd (post_students lc wl ws req s)))
            \<and> roll_no_order lc (roster (snd (delete_students wl ws rn' s)))
            \<and> roll_no_order lc (roster (snd (post_attendance dec wl ws param date body s))))"
proof (intro conjI impI)
  assume "\<not> truthy (req_roll_no req) \<or> \<not> truthy (req_name req)"
  then show "post_students lc wl ws req s =
              (Response 400 (Message ''Roll number and name are required.''), s)"
    by (rule post_students_invalid)
next
  assume a: "truthy (req_roll_no req) \<and> truthy (req_name req) \<and> known (roll_no (created req)) (roster s)"
  then show "fst (post_students lc wl ws req s) =
              Response 400 (Message (''Student with roll number '' @ roll_no (created req) @ '' already exists.''))"
    using post_students_duplicate[of req s lc wl ws] by (simp add: roster_def)
  from a show "stored_doc (snd (post_students lc wl ws req s)) = stored_doc s"
    using post_students_duplicate[of req s lc wl ws] by (simp add: roster_def stored_doc_loadData)
next
  assume a: "truthy (req_roll_no req) \<and> truthy (req_name req) \<and> \<not> known (roll_no (created req)) (roster s)"
  then have st: "stored_doc (snd (post_students lc wl True req s)) =
      (stored_doc s)\<lparr>students := array_sort (by_roll_no lc) (students (stored_doc s) @ [created req])\<rparr>"
    using post_students_new(2)[of req s lc wl True] by (simp add: roster_def)
  from a show "fst (post_students lc wl True req s) = Response 201 (StudentJson (created req))"
    using post_students_new(1)[of req s lc wl True] by (simp add: roster_def)
  show "mset (roster (snd (post_students lc wl True req s))) = add_mset (created req) (mset (roster s))"
    by (simp add: roster_def st mset_array_sort)
  show "roll_no_order lc (roster (snd (post_students lc wl True req s)))"
    using assms by (simp add: roster_def st roll_no_order_sort)
  show "attendance (stored_doc (snd (post_students lc wl True req s))) = attendance (stored_doc s)"
    by (simp add: st)
next
  assume "req_roll_no req = Some rn \<and> req_name req = Some nm"
  then show "created req = \<lparr>roll_no = rn, name = nm,
                            course = Some (case req_course req of None \<Rightarrow> ''N/A''
                                           | Some c \<Rightarrow> if c = [] then ''N/A'' else c)\<rparr>"
    by (simp add: created_def default_course_def split: option.splits)
next
  assume u: "unique_roll_no (roster s)"
  show "unique_roll_no (roster (snd (post_students lc wl ws req s)))"
    using roster_post_students[of lc wl ws req s] u
    by (auto simp: unique_roll_no_def distinct_array_sort known_def)
  show "unique_roll_no (roster (snd (delete_students wl ws rn' s)))"
    using roster_delete_students[of wl ws rn' s] u
    by (auto simp: unique_roll_no_def distinct_map_filter)
  show "unique_roll_no (roster (snd (post_attendance dec wl ws param date body s)))"
    using u by (simp add: roster_post_attendance)
next
  assume o: "roll_no_order lc (roster s)"
  show "roll_no_order lc (roster (snd (post_students lc wl ws req s)))"
    using roster_post_students[of lc wl ws req s] o assms
    by (auto simp: roll_no_order_sort)
  show "roll_no_order lc (roster (snd (delete_students wl ws rn' s)))"
    using roster_delete_students[of wl ws rn' s] o
    by (auto simp: roll_no_order_filter)
  show "roll_no_order lc (roster (snd (post_attendance dec wl ws param date body s)))"
    using o by (simp add: roster_post_attendance)
qed

lemma roster_enrolled: "roster enrolled = [\<lparr>roll_no = ''001'', name = ''Alice'', course = Some ''N/A''\<rparr>]"
  by (simp add: roster_def enrolled_def stored_doc_def stringify_def backfill_def fresh_def)

lemma attendance_enrolled: "attendance (stored_doc enrolled) = []"
  by (simp add: enrolled_def stored_doc_def stringify_def backfill_def fresh_def)

theorem add_student_witness:
  "collation code_unit_compare
   \<and> post_students code_unit_compare True True nameless (fresh :: bucket obj server) =
       (Response 400 (Message ''Roll number and name are required.''), fresh)
   \<and> fst (post_students code_unit_compare True True alice (fresh :: bucket obj server)) =
       Response 201 (StudentJson \<lparr>roll_no = ''001'', name = ''Alice'', course = Some ''N/A''\<rparr>)
   \<and> mset (roster (snd (post_students code_unit_compare True True alice (fresh :: bucket obj server)))) =
       {#\<lparr>roll_no = ''001'', name = ''Alice'', course = Some ''N/A''\<rparr>#}
   \<and> fst (post_students code_unit_compare True True alice (enrolled :: bucket obj server)) =
       Response 400 (Message ''Student with roll number 001 already exists.'')
   \<and> stored_doc (snd (post_students code_unit_compare True True alice (enrolled :: bucket obj server))) =
       stored_doc enrolled
   \<and> unique_roll_no (roster (snd (post_students code_unit_compare True True alice (fresh :: bucket obj server))))
   \<and> roll_no_order code_unit_compare
         (roster (snd (post_students code_unit_compare True True alice (fresh :: bucket obj server))))"
  using add_student[OF collation_code_unit_compare,
      where req = nameless and s = "fresh :: bucket obj server" and wl = True and ws = True]
    add_student[OF collation_code_unit_compare,
      where req = alice and s = "fresh :: bucket obj server" and wl = True and ws = True
        and rn = "''001''" and nm = "''Alice''"]
    add_student[OF collation_code_unit_compare,
      where req = alice and s = "enrolled :: bucket obj server" and wl = True and ws = True]
  by (simp add: collation_code_unit_compare alice_def nameless_def truthy_def created_def default_course_def
      known_def roster_enrolled)
     (simp add: roster_def stored_doc_def fresh_def empty_doc_def unique_roll_no_def roll_no_order_def known_def)

section \<open>The cached server, deletion and replacement\<close>

lemma a_loadData_ok:
  assumes "\<not> a_load_fails wl s"
  obtains r s1 where "a_loadData wl s = (Inr r, s1)" "dataCache s1 = Some r" "heap s1 r = a_doc s"
proof -
  have "\<exists>r s1. a_loadData wl s = (Inr r, s1) \<and> dataCache s1 = Some r \<and> heap s1 r = a_doc s"
    using assms
    by (cases wl)
       (auto simp: a_loadData_def a_load_fails_def a_doc_def stored_doc_def store_defs stringify_def
        backfill_def empty_doc_def split: option.splits file_state.splits json.splits)
  then show ?thesis using that by blast
qed

lemma a_loadData_fails:
  "a_load_fails wl s \<Longrightarrow> fst (a_loadData wl s) = Inl (Error ''Failed to save data to the server.'')"
  by (simp add: a_loadData_def a_load_fails_def store_defs)

lemma a_doc_mutate: "dataCache s = Some r \<Longrightarrow> a_doc (mutate r f s) = f (heap s r)"
  by (simp add: a_doc_def mutate_def)

lemma dataCache_mutate: "dataCache (mutate r f s) = dataCache s"
  by (simp add: mutate_def)

lemma a_saveData_True:
  "a_saveData True r s = (Inr (), s\<lparr>data_file := stringify (heap s r), dataCache := Some r\<rparr>)"
  by (simp add: a_saveData_def save_with_def)

lemma a_saveData_False: "a_saveData False r s = (Inl (Error ''Failed to save data to the server.''), s)"
  by (simp add: a_saveData_def save_with_def)

lemma a_doc_saved: "a_doc (s\<lparr>data_file := f, dataCache := Some r\<rparr>) = heap s r"
  by (simp add: a_doc_def)

lemma a_get_attendance_ok:
  assumes "date_format date" "\<not> a_load_fails wl s"
  shows "fst (a_get_attendance wl date s) = Response 200 (EntriesJson (on_date (attendance (a_doc s)) date))"
    and "a_doc (snd (a_get_attendance wl date s)) = a_doc s"
proof -
  obtain r s1 where l: "a_loadData wl s = (Inr r, s1)" "dataCache s1 = Some r" "heap s1 r = a_doc s"
    using assms(2) by (rule a_loadData_ok)
  show "fst (a_get_attendance wl date s) = Response 200 (EntriesJson (on_date (attendance (a_doc s)) date))"
    using assms l by (simp add: a_get_attendance_def)
  show "a_doc (snd (a_get_attendance wl date s)) = a_doc s"
    using assms l by (simp add: a_get_attendance_def a_doc_def)
qed

lemma a_post_attendance_ok:
  assumes "date_format date" "list_all a_valid_item l" "\<not> a_load_fails wl s"
  shows "fst (a_post_attendance wl True date (Array l) s) =
           Response 200 (Message (''Attendance for '' @ date @ '' saved successfully.''))"
    and "a_doc (snd (a_post_attendance wl True date (Array l) s)) =
           (a_doc s)\<lparr>attendance := set_prop date (a_enrichedAttendance (students (a_doc s)) l)
                                      (attendance (a_doc s))\<rparr>"
    and "data_file (snd (a_post_attendance wl True date (Array l) s)) =
           stringify (a_doc (snd (a_post_attendance wl True date (Array l) s)))"
    and "dataCache (snd (a_post_attendance wl True date (Array l) s)) \<noteq> None"
proof -
  obtain r s1 where l: "a_loadData wl s = (Inr r, s1)" "dataCache s1 = Some r" "heap s1 r = a_doc s"
    using assms(3) by (rule a_loadData_ok)
  show "fst (a_post_attendance wl True date (Array l) s) =
           Response 200 (Message (''Attendance for '' @ date @ '' saved successfully.''))"
    using assms l by (simp add: a_post_attendance_def Let_def a_saveData_True)
  show "a_doc (snd (a_post_attendance wl True date (Array l) s)) =
           (a_doc s)\<lparr>attendance := set_prop date (a_enrichedAttendance (students (a_doc s)) l)
                                      (attendance (a_doc s))\<rparr>"
    using assms l by (simp add: a_post_attendance_def Let_def a_saveData_True a_doc_saved heap_mutate)
  show "data_file (snd (a_post_attendance wl True date (Array l) s)) =
           stringify (a_doc (snd (a_post_attendance wl True date (Array l) s)))"
    using assms l by (simp add: a_post_attendance_def Let_def a_saveData_True a_doc_saved heap_mutate)
  show "dataCache (snd (a_post_attendance wl True date (Array l) s)) \<noteq> None"
    using assms l by (simp add: a_post_attendance_def Let_def a_saveData_True)
qed

lemma a_post_attendance_unchanged:
  assumes "\<not> (date_format date \<and> (\<exists>l. body = Array l \<and> list_all a_valid_item l))"
  shows "snd (a_post_attendance wl ws date body s) = s"
    and "\<exists>m. fst (a_post_attendance wl ws date body s) = Response 400 (Message m)"
  using assms by (auto simp: a_post_attendance_def invalid_date_def split: req_body.splits)

lemma a_delete_students_absent:
  assumes "\<not> a_load_fails wl s" "\<not> known rn (students (a_doc s))"
  shows "fst (a_delete_students wl ws rn s) =
           Response 404 (Message (''Student with roll number '' @ rn @ '' not found.''))"
    and "a_doc (snd (a_delete_students wl ws rn s)) = a_doc s"
proof -
  obtain r s1 where l: "a_loadData wl s = (Inr r, s1)" "dataCache s1 = Some r" "heap s1 r = a_doc s"
    using assms(1) by (rule a_loadData_ok)
  have k: "filter (\<lambda>st. roll_no st \<noteq> rn) (students (a_doc s)) = students (a_doc s)"
    using assms(2) by (auto simp: known_def filter_id_conv)
  show "fst (a_delete_students wl ws rn s) =
           Response 404 (Message (''Student with roll number '' @ rn @ '' not found.''))"
    using l k by (simp add: a_delete_students_def Let_def heap_mutate)
  show "a_doc (snd (a_delete_students wl ws rn s)) = a_doc s"
    using l k by (simp add: a_delete_students_def Let_def heap_mutate a_doc_mutate)
qed

lemma a_delete_students_present:
  assumes "\<not> a_load_fails wl s" "known rn (students (a_doc s))"
  shows "fst (a_delete_students wl True rn s) =
           Response 200 (Message (''Student '' @ rn @ '' deleted successfully.''))"
    and "a_doc (snd (a_delete_students wl True rn s)) =
           \<lparr>students = filter (\<lambda>st. roll_no st \<noteq> rn) (students (a_doc s)),
            attendance = purge_dates rn (attendance (a_doc s))\<rparr>"
    and "data_file (snd (a_delete_students wl True rn s)) =
           stringify (a_doc (snd (a_delete_students wl True rn s)))"
    and "dataCache (snd (a_delete_students wl True rn s)) \<noteq> None"
proof -
  obtain r s1 where l: "a_loadData wl s = (Inr r, s1)" "dataCache s1 = Some r" "heap s1 r = a_doc s"
    using assms(1) by (rule a_loadData_ok)
  have k: "length (filter (\<lambda>st. roll_no st \<noteq> rn) (students (a_doc s))) \<noteq> length (students (a_doc s))"
    using assms(2) by (simp add: none_removed)
  show "fst (a_delete_students wl True rn s) =
           Response 200 (Message (''Student '' @ rn @ '' deleted successfully.''))"
    using l k by (simp add: a_delete_students_def Let_def heap_mutate a_saveData_True)
  show "a_doc (snd (a_delete_students wl True rn s)) =
           \<lparr>students = filter (\<lambda>st. roll_no st \<noteq> rn) (students (a_doc s)),
            attendance = purge_dates rn (attendance (a_doc s))\<rparr>"
    using l k by (simp add: a_delete_students_def Let_def heap_mutate a_saveData_True a_doc_saved)
  show "data_file (snd (a_delete_students wl True rn s)) =
           stringify (a_doc (snd (a_delete_students wl True rn s)))"
    using l k by (simp add: a_delete_students_def Let_def heap_mutate a_saveData_True a_doc_saved)
  show "dataCache (snd (a_delete_students wl True rn s)) \<noteq> None"
    using l k by (simp add: a_delete_students_def Let_def heap_mutate a_saveData_True)
qed

lemma not_a_load_fails_cached: "dataCache s \<noteq> None \<Longrightarrow> \<not> a_load_fails wl s"
  by (simp add: a_load_fails_def)

lemma enrich_None: "enrich ss a = None \<longleftrightarrow> \<not> names_student ss a"
proof -
  have "array_find (\<lambda>st. Some (roll_no st) = att_roll_no a) ss = None \<longleftrightarrow> \<not> names_student ss a"
    by (cases "att_roll_no a") (auto simp: array_find_None names_student_def known_def)
  then show ?thesis by (auto simp: enrich_def split: option.splits)
qed

lemma enrich_Some:
  "enrich ss a = Some e \<Longrightarrow>
     nameless_entry e = nameless_entry a \<and> (\<exists>st\<in>set ss. Some (roll_no st) = att_roll_no e \<and> att_name e = Some (name st))"
  by (auto simp: enrich_def nameless_entry_def split: option.splits dest!: array_find_Some)

lemma enriched_known:
  "e \<in> set (enrichedAttendance ss l) \<Longrightarrow>
     names_student ss e \<and> (\<exists>st\<in>set ss. Some (roll_no st) = att_roll_no e \<and> att_name e = Some (name st))"
proof -
  assume "e \<in> set (enrichedAttendance ss l)"
  then obtain a where "a \<in> set l" "enrich ss a = Some e"
    by (auto simp: enrichedAttendance_def map_filter_def)
  then obtain st where st: "st \<in> set ss" "Some (roll_no st) = att_roll_no e" "att_name e = Some (name st)"
    using enrich_Some[of ss a e] by blast
  from st(2) have "att_roll_no e = Some (roll_no st)" by simp
  with st(1) have "names_student ss e" by (simp add: names_student_def known_def)
  with st show ?thesis by blast
qed

lemma enriched_sublist:
  "map nameless_entry (enrichedAttendance ss l) = map nameless_entry (filter (names_student ss) l)"
proof (induction l)
  case Nil
  show ?case by (simp add: enrichedAttendance_def)
next
  case (Cons a l)
  show ?case
  proof (cases "enrich ss a")
    case None
    with Cons show ?thesis
      using enrich_None[of ss a] by (simp add: enrichedAttendance_def)
  next
    case (Some e)
    then have "names_student ss a" using enrich_None[of ss a] by auto
    with Some Cons show ?thesis
      using enrich_Some[of ss a e] by (simp add: enrichedAttendance_def)
  qed
qed




lemma get_attendance_rejected:
  "dec param = None \<Longrightarrow> get_attendance dec wl param date s = (Rejected uri_error, s)"
  by (simp add: get_attendance_def)

lemma get_attendance_stored:
  assumes "stored_doc s = stored_doc s'" "on_functions s = on_functions s'" "on_prototype s = on_prototype s'"
  shows "fst (get_attendance dec w param date s) = fst (get_attendance dec w' param date s')"
proof (cases "dec param")
  case None
  then show ?thesis by (simp add: get_attendance_rejected)
next
  case (Some subject)
  show ?thesis
  proof (cases "date_format date \<and> subject \<noteq> []")
    case True
    then show ?thesis
      using get_attendance_ok(1)[where dec = dec and param = param and wl = w and s = s, OF Some]
        get_attendance_ok(1)[where dec = dec and param = param and wl = w' and s = s', OF Some] assms
      by (simp add: subject_date_cong[of s s'])
  next
    case False
    then show ?thesis using Some by (auto simp: get_attendance_def)
  qed
qed


lemma delete_students_objects:
  "on_functions (snd (delete_students wl ws rn s)) = on_functions s"
  "on_prototype (snd (delete_students wl ws rn s)) = on_prototype s"
proof -
  obtain s1 where l: "loadData wl s = (next_ref s, s1)" "heap s1 (next_ref s) = stored_doc s"
    by (rule loadData_cases)
  have o: "on_functions s1 = on_functions s" "on_prototype s1 = on_prototype s"
    using loadData_objects[of wl s] l(1) by simp_all
  show "on_functions (snd (delete_students wl ws rn s)) = on_functions s"
    using l o by (cases ws) (simp_all add: delete_students_def Let_def saveData_True saveData_False objects_mutate)
  show "on_prototype (snd (delete_students wl ws rn s)) = on_prototype s"
    using l o by (cases ws) (simp_all add: delete_students_def Let_def saveData_True saveData_False objects_mutate)
qed


text \<open>
  What \<^verbatim>\<open>DELETE /api/students/:roll_no\<close> does to the document, in \<^verbatim>\<open>src/server.js\<close> (attendance
  nested by subject and date, state \<open>s\<close>) and in the cached server with flat attendance (state
  \<open>c\<close>). When no student has the roll number the answer is 404 and the document is unchanged.
  When one has, and the save succeeds, the answer is 200 and the one document that is
  saved has the roster without that student and every bucket without the entries of that
  roll number: no bucket of the document appears or disappears. \<^verbatim>\<open>GET /api/attendance\<close> then
  returns a list with no entry of that roll number for a subject and a date that name nothing
  inherited (in the cached server: for any date).
\<close>

lemma delete_cascade:
  fixes s :: "bucket obj server" and c :: "bucket server"
  shows "(\<not> known rn (roster s) \<longrightarrow>
            fst (delete_students wl ws rn s) =
              Response 404 (Message (''Student with roll number '' @ rn @ '' not found.''))
            \<and> stored_doc (snd (delete_students wl ws rn s)) = stored_doc s)
       \<and> (known rn (roster s) \<longrightarrow>
            fst (delete_students wl True rn s) =
              Response 200 (Message (''Student '' @ rn @ '' deleted successfully.''))
            \<and> stored_doc (snd (delete_students wl True rn s)) =
                \<lparr>students = filter (\<lambda>st. roll_no st \<noteq> rn) (roster s),
                 attendance = purge_subjects rn (attendance (stored_doc s))\<rparr>
            \<and> \<not> known rn (roster (snd (delete_students wl True rn s)))
            \<and> (\<forall>subject date.
                  bucket_at (attendance (stored_doc (snd (delete_students wl True rn s)))) subject date =
                    map_option (filter (other_than rn)) (bucket_at (attendance (stored_doc s)) subject date))
            \<and> (\<forall>param subject date.
                  dec param = Some subject \<and> date_format date \<and> subject \<noteq> [] \<and>
                  plain s subject \<and> not_inherited s date \<longrightarrow>
                  (\<exists>l. fst (get_attendance dec w param date (snd (delete_students wl True rn s))) =
                         Response 200 (EntriesJson l)
                       \<and> (\<forall>e\<in>set l. att_roll_no e \<noteq> Some rn))))
       \<and> (\<not> a_load_fails wl c \<and> \<not> known rn (students (a_doc c)) \<longrightarrow>
            fst (a_delete_students wl ws rn c) =
              Response 404 (Message (''Student with roll number '' @ rn @ '' not found.''))
            \<and> a_doc (snd (a_delete_students wl ws rn c)) = a_doc c)
       \<and> (\<not> a_load_fails wl c \<and> known rn (students (a_doc c)) \<longrightarrow>
            fst (a_delete_students wl True rn c) =
              Response 200 (Message (''Student '' @ rn @ '' deleted successfully.''))
            \<and> data_file (snd (a_delete_students wl True rn c)) =
                stringify \<lparr>students = filter (\<lambda>st. roll_no st \<noteq> rn) (students (a_doc c)),
                           attendance = purge_dates rn (attendance (a_doc c))\<rparr>
            \<and> a_doc (snd (a_delete_students wl True rn c)) =
                \<lparr>students = filter (\<lambda>st. roll_no st \<noteq> rn) (students (a_doc c)),
                 attendance = purge_dates rn (attendance (a_doc c))\<rparr>
            \<and> (\<forall>date. get_prop (purge_dates rn (attendance (a_doc c))) date =
                         map_option (filter (other_than rn)) (get_prop (attendance (a_doc c)) date))
            \<and> (\<forall>date. date_format date \<longrightarrow>
                  (\<exists>l. fst (a_get_attendance w date (snd (a_delete_students wl True rn c))) =
                         Response 200 (EntriesJson l)
                       \<and> (\<forall>e\<in>set l. att_roll_no e \<noteq> Some rn))))"
proof (intro conjI impI allI)
  assume a: "\<not> known rn (roster s)"
  show "fst (delete_students wl ws rn s) =
          Response 404 (Message (''Student with roll number '' @ rn @ '' not found.''))"
    using a delete_students_absent(1)[of rn s wl ws] by (simp add: roster_def)
  show "stored_doc (snd (delete_students wl ws rn s)) = stored_doc s"
    using a delete_students_absent(2)[of rn s wl ws] by (simp add: roster_def)
next
  assume a: "known rn (roster s)"
  have st: "stored_doc (snd (delete_students wl True rn s)) =
                \<lparr>students = filter (\<lambda>st. roll_no st \<noteq> rn) (roster s),
                 attendance = purge_subjects rn (attendance (stored_doc s))\<rparr>"
    using a delete_students_present(2)[of rn s wl True] by (simp add: roster_def)
  show "fst (delete_students wl True rn s) =
          Response 200 (Message (''Student '' @ rn @ '' deleted successfully.''))"
    using a delete_students_present(1)[of rn s wl True] by (simp add: roster_def)
  show "stored_doc (snd (delete_students wl True rn s)) =
                \<lparr>students = filter (\<lambda>st. roll_no st \<noteq> rn) (roster s),
                 attendance = purge_subjects rn (attendance (stored_doc s))\<rparr>"
    by (rule st)
  show "\<not> known rn (roster (snd (delete_students wl True rn s)))"
    by (auto simp: roster_def st known_def)
  show "bucket_at (attendance (stored_doc (snd (delete_students wl True rn s)))) subject date =
          map_option (filter (other_than rn)) (bucket_at (attendance (stored_doc s)) subject date)"
    for subject date
    by (simp add: st bucket_at_purge_subjects)
  show "\<exists>l. fst (get_attendance dec w param date (snd (delete_students wl True rn s))) =
               Response 200 (EntriesJson l) \<and> (\<forall>e\<in>set l. att_roll_no e \<noteq> Some rn)"
    if h: "dec param = Some subject \<and> date_format date \<and> subject \<noteq> [] \<and>
           plain s subject \<and> not_inherited s date" for param subject date
  proof -
    let ?s' = "snd (delete_students wl True rn s)"
    have p: "plain ?s' subject" "not_inherited ?s' date"
      using h by (simp_all add: plain_def not_inherited_def delete_students_objects)
    have "fst (get_attendance dec w param date ?s') =
            Response 200 (EntriesJson (subject_date ?s' (attendance (stored_doc ?s')) subject date))"
      using h by (intro get_attendance_ok(1)) simp_all
    then show ?thesis
      by (simp add: st subject_date_purge_subjects[OF p] other_than_def)
  qed
next
  assume a: "\<not> a_load_fails wl c \<and> \<not> known rn (students (a_doc c))"
  show "fst (a_delete_students wl ws rn c) =
          Response 404 (Message (''Student with roll number '' @ rn @ '' not found.''))"
    using a a_delete_students_absent(1)[of wl c rn ws] by simp
  show "a_doc (snd (a_delete_students wl ws rn c)) = a_doc c"
    using a a_delete_students_absent(2)[of wl c rn ws] by simp
next
  assume a: "\<not> a_load_fails wl c \<and> known rn (students (a_doc c))"
  have st: "a_doc (snd (a_delete_students wl True rn c)) =
                \<lparr>students = filter (\<lambda>st. roll_no st \<noteq> rn) (students (a_doc c)),
                 attendance = purge_dates rn (attendance (a_doc c))\<rparr>"
    using a a_delete_students_present(2)[of wl c rn] by simp
  show "fst (a_delete_students wl True rn c) =
          Response 200 (Message (''Student '' @ rn @ '' deleted successfully.''))"
    using a a_delete_students_present(1)[of wl c rn] by simp
  show "data_file (snd (a_delete_students wl True rn c)) =
                stringify \<lparr>students = filter (\<lambda>st. roll_no st \<noteq> rn) (students (a_doc c)),
                           attendance = purge_dates rn (attendance (a_doc c))\<rparr>"
    using a a_delete_students_present(3)[of wl c rn] st by simp
  show "a_doc (snd (a_delete_students wl True rn c)) =
                \<lparr>students = filter (\<lambda>st. roll_no st \<noteq> rn) (students (a_doc c)),
                 attendance = purge_dates rn (attendance (a_doc c))\<rparr>"
    by (rule st)
  show "get_prop (purge_dates rn (attendance (a_doc c))) date =
          map_option (filter (other_than rn)) (get_prop (attendance (a_doc c)) date)" for date
    by (rule get_prop_purge_dates)
  show "\<exists>l. fst (a_get_attendance w date (snd (a_delete_students wl True rn c))) =
               Response 200 (EntriesJson l) \<and> (\<forall>e\<in>set l. att_roll_no e \<noteq> Some rn)"
    if "date_format date" for date
  proof -
    have "\<not> a_load_fails w (snd (a_delete_students wl True rn c))"
      using a a_delete_students_present(4)[of wl c rn] by (simp add: not_a_load_fails_cached)
    then show ?thesis
      using that a_get_attendance_ok(1)[of date w "snd (a_delete_students wl True rn c)"]
      by (simp add: st on_date_purge_dates other_than_def)
  qed
qed

lemma a_enriched_all: "map nameless_entry (a_enrichedAttendance ss l) = map nameless_entry l"
  by (simp add: a_enrichedAttendance_def nameless_entry_def)

lemma a_enriched_unknown:
  assumes "e \<in> set (a_enrichedAttendance ss l)" "\<not> names_student ss e"
  shows "att_name e = Some ''Unknown''"
proof -
  from assms(1) obtain a where a: "a \<in> set l"
    "e = a\<lparr>att_name := Some (case array_find (\<lambda>st. Some (roll_no st) = att_roll_no a) ss of
                                Some student \<Rightarrow> name student | None \<Rightarrow> ''Unknown'')\<rparr>"
    by (auto simp: a_enrichedAttendance_def)
  then have "\<not> names_student ss a" using assms(2) by (simp add: names_student_def)
  then have "array_find (\<lambda>st. Some (roll_no st) = att_roll_no a) ss = None"
    by (cases "att_roll_no a") (auto simp: array_find_None names_student_def known_def)
  with a show ?thesis by simp
qed

text \<open>
  \<^verbatim>\<open>POST /api/attendance\<close> replaces the bucket, in \<^verbatim>\<open>src/server.js\<close> (state \<open>s\<close>) for a subject
  that names nothing inherited, and in the cached server with flat attendance (state \<open>c\<close>):
  after a valid request whose save succeeds, the stored bucket is the enriched list of the
  request, whatever was stored before; and a second identical request leaves the stored
  document, the answer and what \<^verbatim>\<open>GET /api/attendance\<close> returns for the bucket as the first one
  left them.
\<close>

lemma replacement:
  fixes s :: "bucket obj server" and c :: "bucket server"
  assumes d: "dec param = Some subject" and pl: "plain s subject"
  shows "(date_format date \<and> subject \<noteq> [] \<and> list_all valid_item l \<longrightarrow>
            bucket_at (attendance (stored_doc (snd (post_attendance dec wl True param date (Array l) s))))
              subject date = Some (enrichedAttendance (roster s) l))
       \<and> stored_doc (snd (post_attendance dec wl' True param date body
                             (snd (post_attendance dec wl True param date body s)))) =
           stored_doc (snd (post_attendance dec wl True param date body s))
       \<and> fst (post_attendance dec wl' True param date body (snd (post_attendance dec wl True param date body s))) =
           fst (post_attendance dec wl True param date body s)
       \<and> fst (get_attendance dec w' param date
                 (snd (post_attendance dec wl' True param date body
                         (snd (post_attendance dec wl True param date body s))))) =
           fst (get_attendance dec w param date (snd (post_attendance dec wl True param date body s)))
       \<and> (date_format date \<and> list_all a_valid_item l \<and> \<not> a_load_fails wl c \<longrightarrow>
            get_prop (attendance (a_doc (snd (a_post_attendance wl True date (Array l) c)))) date =
              Some (a_enrichedAttendance (students (a_doc c)) l)
          \<and> a_doc (snd (a_post_attendance wl' True date (Array l)
                           (snd (a_post_attendance wl True date (Array l) c)))) =
              a_doc (snd (a_post_attendance wl True date (Array l) c))
          \<and> data_file (snd (a_post_attendance wl' True date (Array l)
                               (snd (a_post_attendance wl True date (Array l) c)))) =
              data_file (snd (a_post_attendance wl True date (Array l) c))
          \<and> fst (a_post_attendance wl' True date (Array l) (snd (a_post_attendance wl True date (Array l) c))) =
              fst (a_post_attendance wl True date (Array l) c)
          \<and> fst (a_get_attendance w' date
                    (snd (a_post_attendance wl' True date (Array l)
                            (snd (a_post_attendance wl True date (Array l) c))))) =
              fst (a_get_attendance w date (snd (a_post_attendance wl True date (Array l) c))))"
proof (intro conjI impI)
  assume a: "date_format date \<and> subject \<noteq> [] \<and> list_all valid_item l"
  then show "bucket_at (attendance (stored_doc (snd (post_attendance dec wl True param date (Array l) s))))
              subject date = Some (enrichedAttendance (roster s) l)"
    using post_attendance_ok(2)[where dec = dec and param = param and s = s and wl = wl and ws = True
        and l = l and date = date, OF d] pl
    by (simp add: bucket_at_recorded roster_def)
next
  let ?s1 = "snd (post_attendance dec wl True param date body s)"
  let ?s2 = "snd (post_attendance dec wl' True param date body ?s1)"
  have both: "stored_doc ?s2 = stored_doc ?s1 \<and>
      on_functions ?s2 = on_functions ?s1 \<and> on_prototype ?s2 = on_prototype ?s1 \<and>
      fst (post_attendance dec wl' True param date body ?s1) = fst (post_attendance dec wl True param date body s)"
  proof (cases "date_format date \<and> subject \<noteq> [] \<and> (\<exists>l. body = Array l \<and> list_all valid_item l)")
    case False
    then have n: "\<not> (\<exists>subject l. dec param = Some subject \<and> date_format date \<and> subject \<noteq> [] \<and>
                body = Array l \<and> list_all valid_item l)"
      using d by auto
    then have "?s1 = s" by (rule post_attendance_unchanged(1))
    moreover from n have "snd (post_attendance dec wl' True param date body s) = s"
      by (rule post_attendance_unchanged(1))
    moreover from False have "fst (post_attendance dec wl' True param date body s) =
        fst (post_attendance dec wl True param date body s)"
      using d by (auto simp: post_attendance_def split: req_body.splits)
    ultimately show ?thesis by simp
  next
    case True
    then obtain l where l: "body = Array l" "list_all valid_item l" "date_format date" "subject \<noteq> []"
      by auto
    note first = post_attendance_ok[where dec = dec and param = param and wl = wl and ws = True,
        OF d l(3,4,2) pl]
    have pl1: "plain ?s1 subject" using pl first(4) l(1) by (simp add: plain_def)
    note second = post_attendance_ok[where dec = dec and param = param and s = ?s1 and wl = wl'
        and ws = True, OF d l(3,4,2)]
    have 1: "stored_doc ?s1 = (stored_doc s)\<lparr>attendance :=
        recorded subject date (enrichedAttendance (students (stored_doc s)) l) (attendance (stored_doc s))\<rparr>"
      using l first(2) by simp
    have 2: "stored_doc ?s2 = (stored_doc ?s1)\<lparr>attendance :=
        recorded subject date (enrichedAttendance (students (stored_doc ?s1)) l) (attendance (stored_doc ?s1))\<rparr>"
      using l second(2) pl1 by simp
    have 3: "fst (post_attendance dec wl' True param date body ?s1) =
        fst (post_attendance dec wl True param date body s)"
      using l second(1) pl1 first(1) by simp
    have 4: "on_functions ?s2 = on_functions ?s1" "on_prototype ?s2 = on_prototype ?s1"
      using l second(3,4) pl1 by simp_all
    show ?thesis
      unfolding 2 using 3 4 by (simp add: 1 recorded_twice)
  qed
  from both show "stored_doc ?s2 = stored_doc ?s1" by simp
  from both show "fst (post_attendance dec wl' True param date body ?s1) =
      fst (post_attendance dec wl True param date body s)" by simp
  from both show "fst (get_attendance dec w' param date ?s2) = fst (get_attendance dec w param date ?s1)"
    using get_attendance_stored[of ?s2 ?s1 dec w' param date w] by simp
next
  assume a: "date_format date \<and> list_all a_valid_item l \<and> \<not> a_load_fails wl c"
  let ?c1 = "snd (a_post_attendance wl True date (Array l) c)"
  let ?c2 = "snd (a_post_attendance wl' True date (Array l) ?c1)"
  have 1: "a_doc ?c1 = (a_doc c)\<lparr>attendance :=
      set_prop date (a_enrichedAttendance (students (a_doc c)) l) (attendance (a_doc c))\<rparr>"
    using a a_post_attendance_ok(2)[of date l wl c] by simp
  have n: "\<not> a_load_fails wl' ?c1" "\<not> a_load_fails w ?c1"
    using a a_post_attendance_ok(4)[of date l wl c] by (simp_all add: not_a_load_fails_cached)
  have 2: "a_doc ?c2 = (a_doc ?c1)\<lparr>attendance :=
      set_prop date (a_enrichedAttendance (students (a_doc ?c1)) l) (attendance (a_doc ?c1))\<rparr>"
    using a n a_post_attendance_ok(2)[of date l wl' ?c1] by simp
  have n2: "\<not> a_load_fails w' ?c2"
    using a n a_post_attendance_ok(4)[of date l wl' ?c1] by (simp add: not_a_load_fails_cached)
  have same: "a_doc ?c2 = a_doc ?c1"
    unfolding 2 by (simp add: 1 set_prop_twice)
  show "get_prop (attendance (a_doc ?c1)) date = Some (a_enrichedAttendance (students (a_doc c)) l)"
    by (simp add: 1 get_prop_set_prop)
  show "a_doc ?c2 = a_doc ?c1" by (rule same)
  show "data_file ?c2 = data_file ?c1"
    using a n a_post_attendance_ok(3)[of date l wl c] a_post_attendance_ok(3)[of date l wl' ?c1] same
    by simp
  show "fst (a_post_attendance wl' True date (Array l) ?c1) = fst (a_post_attendance wl True date (Array l) c)"
    using a n a_post_attendance_ok(1)[of date l wl c] a_post_attendance_ok(1)[of date l wl' ?c1] by simp
  show "fst (a_get_attendance w' date ?c2) = fst (a_get_attendance w date ?c1)"
    using a n n2 a_get_attendance_ok(1)[of date w' ?c2] a_get_attendance_ok(1)[of date w ?c1] same
    by simp
qed

section \<open>Examples, unknown roll numbers and the date parameter\<close>

lemma stored_doc_physics_day:
  "stored_doc physics_day =
     \<lparr>students = [\<lparr>roll_no = ''001'', name = ''Alice'', course = Some ''N/A''\<rparr>],
      attendance = [(''Physics'', [(''2024-01-01'',
        [\<lparr>att_roll_no = Some ''001'', status = Some ''present'', att_name = Some ''Alice''\<rparr>])])]\<rparr>"
  by (simp add: physics_day_def stored_doc_def stringify_def backfill_def fresh_def)

lemma a_doc_flat_day:
  "a_doc flat_day =
     \<lparr>students = [\<lparr>roll_no = ''001'', name = ''Alice'', course = Some ''N/A''\<rparr>],
      attendance = [(''2024-01-01'',
        [\<lparr>att_roll_no = Some ''001'', status = Some ''present'', att_name = Some ''Alice''\<rparr>])]\<rparr>"
  by (simp add: flat_day_def a_doc_def stored_doc_def stringify_def backfill_def fresh_def)

lemma flat_day_loads: "\<not> a_load_fails w flat_day"
  by (simp add: a_load_fails_def flat_day_def fresh_def stringify_def)

lemma date_format_examples:
  "date_format ''2024-01-01''" "date_format ''2024-01-02''" "date_format ''2024-13-99''"
  "\<not> date_format ''2024-1-1''"
  by (simp_all add: date_format_def digit_def eval_nat_numeral)

lemma roll_call_valid: "list_all valid_item roll_call" "list_all a_valid_item roll_call"
  by (simp_all add: roll_call_def valid_item_def a_valid_item_def validStatuses_def trim_def white_space_def)

lemma roll_call_enriched:
  "enrichedAttendance [\<lparr>roll_no = ''001'', name = ''Alice'', course = Some ''N/A''\<rparr>] roll_call =
     [\<lparr>att_roll_no = Some ''001'', status = Some ''present'', att_name = Some ''Alice''\<rparr>]"
  "a_enrichedAttendance [\<lparr>roll_no = ''001'', name = ''Alice'', course = Some ''N/A''\<rparr>] roll_call =
     [\<lparr>att_roll_no = Some ''001'', status = Some ''present'', att_name = Some ''Alice''\<rparr>,
      \<lparr>att_roll_no = Some ''999'', status = Some ''absent'', att_name = Some ''Unknown''\<rparr>]"
  by (simp_all add: enrichedAttendance_def a_enrichedAttendance_def enrich_def roll_call_def)

lemma decode_ascii_examples:
  "decode_ascii ''Physics'' = Some ''Physics''" "decode_ascii ''constructor'' = Some ''constructor''"
  "decode_ascii ''%'' = None"
  by simp_all

lemma plain_physics_day: "plain physics_day ''Physics''" "not_inherited physics_day date"
  by (simp_all add: plain_def not_inherited_def inherited_names_def inherited_functions_def physics_day_def
      fresh_def get_prop_def)

text \<open>
  Claim C3, as amended. In \<^verbatim>\<open>src/server.js\<close>, for a subject that decodes and names no property
  of \<^verbatim>\<open>Object.prototype\<close>, a request whose entries all have a non-blank roll number and a status
  \<^verbatim>\<open>present\<close> or \<^verbatim>\<open>absent\<close> is answered 200 when the save succeeds, and the bucket it stores
  holds, in order, the entries that name a student of the roster, each with that student's
  name: an entry of an unknown roll number is left out. The cached server with flat
  attendance (\<^verbatim>\<open>part_000\<close>, lines 144-181) answers 200 as well but stores every entry, an
  entry of an unknown roll number with the name \<^verbatim>\<open>Unknown\<close>.
\<close>

theorem unknown_roll_numbers:
  fixes s :: "bucket obj server" and c :: "bucket server"
  shows "(dec param = Some subject \<and> plain s subject \<and>
          date_format date \<and> subject \<noteq> [] \<and> list_all valid_item l \<longrightarrow>
            fst (post_attendance dec wl True param date (Array l) s) =
              Response 200 (Message (''Attendance for '' @ subject @ '' on '' @ date @ '' saved successfully.''))
            \<and> bucket_at (attendance (stored_doc (snd (post_attendance dec wl True param date (Array l) s))))
                 subject date = Some (enrichedAttendance (roster s) l)
            \<and> map nameless_entry (enrichedAttendance (roster s) l) =
                 map nameless_entry (filter (names_student (roster s)) l)
            \<and> (\<forall>e\<in>set (enrichedAttendance (roster s) l).
                  names_student (roster s) e \<and>
                  (\<exists>st\<in>set (roster s). Some (roll_no st) = att_roll_no e \<and> att_name e = Some (name st))))
       \<and> (date_format date \<and> list_all a_valid_item l \<and> \<not> a_load_fails wl c \<longrightarrow>
            fst (a_post_attendance wl True date (Array l) c) =
              Response 200 (Message (''Attendance for '' @ date @ '' saved successfully.''))
            \<and> get_prop (attendance (a_doc (snd (a_post_attendance wl True date (Array l) c)))) date =
                 Some (a_enrichedAttendance (students (a_doc c)) l)
            \<and> data_file (snd (a_post_attendance wl True date (Array l) c)) =
                 stringify (a_doc (snd (a_post_attendance wl True date (Array l) c)))
            \<and> map nameless_entry (a_enrichedAttendance (students (a_doc c)) l) = map nameless_entry l
            \<and> (\<forall>e\<in>set (a_enrichedAttendance (students (a_doc c)) l).
                  \<not> names_student (students (a_doc c)) e \<longrightarrow> att_name e = Some ''Unknown''))"
proof (intro conjI impI ballI)
  assume a: "dec param = Some subject \<and> plain s subject \<and>
             date_format date \<and> subject \<noteq> [] \<and> list_all valid_item l"
  then have h: "dec param = Some subject" "date_format date" "subject \<noteq> []" "list_all valid_item l"
    "plain s subject" by simp_all
  show "fst (post_attendance dec wl True param date (Array l) s) =
          Response 200 (Message (''Attendance for '' @ subject @ '' on '' @ date @ '' saved successfully.''))"
    using post_attendance_ok(1)[where dec = dec and param = param and wl = wl and ws = True, OF h] by simp
  show "bucket_at (attendance (stored_doc (snd (post_attendance dec wl True param date (Array l) s))))
          subject date = Some (enrichedAttendance (roster s) l)"
    using post_attendance_ok(2)[where dec = dec and param = param and wl = wl and ws = True, OF h]
    by (simp add: bucket_at_recorded roster_def)
  show "map nameless_entry (enrichedAttendance (roster s) l) =
          map nameless_entry (filter (names_student (roster s)) l)"
    by (rule enriched_sublist)
  show "names_student (roster s) e" if "e \<in> set (enrichedAttendance (roster s) l)" for e
    using that enriched_known[of e "roster s" l] by simp
  show "\<exists>st\<in>set (roster s). Some (roll_no st) = att_roll_no e \<and> att_name e = Some (name st)"
    if "e \<in> set (enrichedAttendance (roster s) l)" for e
    using that enriched_known[of e "roster s" l] by simp
next
  assume a: "date_format date \<and> list_all a_valid_item l \<and> \<not> a_load_fails wl c"
  have 1: "a_doc (snd (a_post_attendance wl True date (Array l) c)) = (a_doc c)\<lparr>attendance :=
      set_prop date (a_enrichedAttendance (students (a_doc c)) l) (attendance (a_doc c))\<rparr>"
    using a a_post_attendance_ok(2)[of date l wl c] by simp
  show "fst (a_post_attendance wl True date (Array l) c) =
          Response 200 (Message (''Attendance for '' @ date @ '' saved successfully.''))"
    using a a_post_attendance_ok(1)[of date l wl c] by simp
  show "get_prop (attendance (a_doc (snd (a_post_attendance wl True date (Array l) c)))) date =
          Some (a_enrichedAttendance (students (a_doc c)) l)"
    by (simp add: 1 get_prop_set_prop)
  show "data_file (snd (a_post_attendance wl True date (Array l) c)) =
          stringify (a_doc (snd (a_post_attendance wl True date (Array l) c)))"
    using a a_post_attendance_ok(3)[of date l wl c] by simp
  show "map nameless_entry (a_enrichedAttendance (students (a_doc c)) l) = map nameless_entry l"
    by (rule a_enriched_all)
  show "att_name e = Some ''Unknown''"
    if "e \<in> set (a_enrichedAttendance (students (a_doc c)) l)" "\<not> names_student (students (a_doc c)) e" for e
    using that by (rule a_enriched_unknown)
qed

lemma stored_doc_stringify: "data_file s = stringify d \<Longrightarrow> stored_doc s = d"
  by (simp add: stored_doc_def stringify_def backfill_def)

theorem unknown_roll_numbers_witness:
  "decode_ascii ''Physics'' = Some ''Physics'' \<and> plain physics_day ''Physics''
   \<and> date_format ''2024-01-02'' \<and> ''Physics'' \<noteq> [] \<and> list_all valid_item roll_call
   \<and> list_all a_valid_item roll_call \<and> \<not> a_load_fails True flat_day
   \<and> fst (post_attendance decode_ascii True True ''Physics'' ''2024-01-02'' (Array roll_call) physics_day) =
       Response 200 (Message ''Attendance for Physics on 2024-01-02 saved successfully.'')
   \<and> bucket_at (attendance (stored_doc
         (snd (post_attendance decode_ascii True True ''Physics'' ''2024-01-02'' (Array roll_call) physics_day))))
         ''Physics'' ''2024-01-02'' =
       Some [\<lparr>att_roll_no = Some ''001'', status = Some ''present'', att_name = Some ''Alice''\<rparr>]
   \<and> get_prop (attendance (a_doc (snd (a_post_attendance True True ''2024-01-02'' (Array roll_call) flat_day))))
         ''2024-01-02'' =
       Some [\<lparr>att_roll_no = Some ''001'', status = Some ''present'', att_name = Some ''Alice''\<rparr>,
             \<lparr>att_roll_no = Some ''999'', status = Some ''absent'', att_name = Some ''Unknown''\<rparr>]"
proof -
  note t = unknown_roll_numbers[where s = physics_day and c = flat_day and date = "''2024-01-02''"
      and dec = decode_ascii and param = "''Physics''" and subject = "''Physics''" and wl = True
      and l = roll_call]
  have h: "decode_ascii ''Physics'' = Some ''Physics'' \<and> plain physics_day ''Physics'' \<and>
           date_format ''2024-01-02'' \<and> ''Physics'' \<noteq> [] \<and> list_all valid_item roll_call"
    using decode_ascii_examples(1) plain_physics_day(1) date_format_examples(2) roll_call_valid(1) by simp
  have h': "date_format ''2024-01-02'' \<and> list_all a_valid_item roll_call \<and> \<not> a_load_fails True flat_day"
    using date_format_examples(2) roll_call_valid(2) flat_day_loads by simp
  note n1 = t[THEN conjunct1, rule_format, OF h]
  note n2 = t[THEN conjunct2, rule_format, OF h']
  show ?thesis
    using n1 n2 h h'
    by (simp add: a_doc_flat_day roll_call_enriched roster_def stored_doc_physics_day)
qed

text \<open>
  Claim C3 as it was stated fails on the cached server with flat attendance: with a roster
  holding roll number 001 only, a recording with well-shaped entries of 001 and of 999 is
  answered 200, and the data file then holds the entry of 999 under the name \<^verbatim>\<open>Unknown\<close>.
\<close>

theorem unknown_entry_stored_counterexample:
  "list_all valid_item roll_call \<and> date_format ''2024-01-02''
   \<and> \<not> known ''999'' (students (a_doc flat_day))
   \<and> fst (a_post_attendance True True ''2024-01-02'' (Array roll_call) flat_day) =
       Response 200 (Message ''Attendance for 2024-01-02 saved successfully.'')
   \<and> on_date (attendance (stored_doc (snd (a_post_attendance True True ''2024-01-02'' (Array roll_call) flat_day))))
        ''2024-01-02'' =
       [\<lparr>att_roll_no = Some ''001'', status = Some ''present'', att_name = Some ''Alice''\<rparr>,
        \<lparr>att_roll_no = Some ''999'', status = Some ''absent'', att_name = Some ''Unknown''\<rparr>]"
proof -
  let ?c1 = "snd (a_post_attendance True True ''2024-01-02'' (Array roll_call) flat_day)"
  have 1: "a_doc ?c1 = (a_doc flat_day)\<lparr>attendance :=
      set_prop ''2024-01-02'' (a_enrichedAttendance (students (a_doc flat_day)) roll_call)
        (attendance (a_doc flat_day))\<rparr>"
    by (rule a_post_attendance_ok(2)[OF date_format_examples(2) roll_call_valid(2) flat_day_loads])
  have "data_file ?c1 = stringify (a_doc ?c1)"
    by (rule a_post_attendance_ok(3)[OF date_format_examples(2) roll_call_valid(2) flat_day_loads])
  then have 2: "stored_doc ?c1 = a_doc ?c1" by (rule stored_doc_stringify)
  have 3: "fst (a_post_attendance True True ''2024-01-02'' (Array roll_call) flat_day) =
       Response 200 (Message ''Attendance for 2024-01-02 saved successfully.'')"
    using a_post_attendance_ok(1)[OF date_format_examples(2) roll_call_valid(2) flat_day_loads, of True]
    by simp
  show ?thesis
    using 3 roll_call_valid(1)
    by (simp add: 2 1 date_format_examples on_date_def get_prop_def a_doc_flat_day
        roll_call_enriched known_def)
qed




section \<open>Failed saves and loading\<close>

lemma started_facts:
  "data_file started = stringify empty_doc" "dataCache started = Some 0" "heap started 0 = empty_doc"
  "next_ref started = 1"
  by (simp_all add: started_def fresh_def a_loadData_def store_defs)

lemma after_failed_add_facts:
  "data_file after_failed_add = stringify empty_doc" "dataCache after_failed_add = Some 0"
  "heap after_failed_add 0 =
     \<lparr>students = [\<lparr>roll_no = ''001'', name = ''Alice'', course = Some ''N/A''\<rparr>], attendance = []\<rparr>"
  "next_ref after_failed_add = 1"
  by (simp_all add: after_failed_add_def post_students_def alice_def truthy_def fresh_def loadData_def
      store_defs empty_doc_def has_roll_no_def default_course_def array_sort_def Let_def)

lemma a_post_students_failed_save:
  assumes "dataCache s = Some r" "truthy (req_roll_no req)" "truthy (req_name req)"
    and "\<not> known (roll_no (created req)) (students (heap s r))"
  shows "a_post_students lc wl False req s =
           (Response 500 (Message ''Failed to save data to the server.''),
            mutate r (\<lambda>d. d\<lparr>students := array_sort (by_roll_no lc) (students d)\<rparr>)
              (mutate r (\<lambda>d. d\<lparr>students := students d @ [created req]\<rparr>) s))"
proof -
  obtain rn nm where q: "req_roll_no req = Some rn" "req_name req = Some nm"
    using assms(2,3) by (auto simp: truthy_def split: option.splits)
  have c: "created req = \<lparr>roll_no = rn, name = nm, course = Some (default_course (req_course req))\<rparr>"
    using q by (simp add: created_def)
  have f: "array_find (has_roll_no rn) (students (heap s r)) = None"
    using assms(4) q by (simp add: find_has_roll_no created_def)
  show ?thesis
    using assms(1,2,3) q f c
    by (simp add: a_post_students_def a_loadData_def Let_def a_saveData_False error_message_def)
qed

text \<open>
  Claim C1 fails on the code. In the cached server, a \<^verbatim>\<open>POST /api/students\<close> whose write fails
  is answered 500 and leaves the data file as it was, but the object behind \<^verbatim>\<open>dataCache\<close> has
  the new student, and the next \<^verbatim>\<open>loadData\<close> returns that object. In \<^verbatim>\<open>src/server.js\<close> the same
  request leaves \<^verbatim>\<open>dataCache\<close> referring to a document with the new student while the data
  file has none.
\<close>

theorem failed_save_keeps_mutation:
  "students (heap started 0) = [] \<and> dataCache started = Some 0
   \<and> fst (a_post_students code_unit_compare True False alice started) =
       Response 500 (Message ''Failed to save data to the server.'')
   \<and> data_file (snd (a_post_students code_unit_compare True False alice started)) = data_file started
   \<and> fst (a_loadData True (snd (a_post_students code_unit_compare True False alice started))) = Inr 0
   \<and> students (heap (snd (a_loadData True (snd (a_post_students code_unit_compare True False alice started)))) 0) =
       [\<lparr>roll_no = ''001'', name = ''Alice'', course = Some ''N/A''\<rparr>]
   \<and> fst (post_students code_unit_compare True False alice (fresh :: bucket obj server)) =
       Response 500 (Message ''Failed to save data to the server file.'')
   \<and> dataCache after_failed_add = Some 0
   \<and> students (heap after_failed_add 0) = [\<lparr>roll_no = ''001'', name = ''Alice'', course = Some ''N/A''\<rparr>]
   \<and> roster after_failed_add = []"
proof -
  have k: "\<not> known (roll_no (created alice)) (students (heap started 0))"
    by (simp add: started_facts empty_doc_def known_def)
  have t: "truthy (req_roll_no alice)" "truthy (req_name alice)"
    by (simp_all add: alice_def truthy_def)
  note a = a_post_students_failed_save[OF started_facts(2) t k, of code_unit_compare True]
  have c: "dataCache (snd (a_post_students code_unit_compare True False alice started)) = Some 0"
    by (simp add: a dataCache_mutate started_facts)
  have h: "students (heap (snd (a_post_students code_unit_compare True False alice started)) 0) =
      [\<lparr>roll_no = ''001'', name = ''Alice'', course = Some ''N/A''\<rparr>]"
    unfolding a
    by (simp add: heap_mutate started_facts empty_doc_def created_def alice_def default_course_def
        array_sort_def)
  have d: "data_file (snd (a_post_students code_unit_compare True False alice started)) = data_file started"
    by (simp add: a mutate_def)
  have l: "a_loadData True (snd (a_post_students code_unit_compare True False alice started)) =
      (Inr 0, snd (a_post_students code_unit_compare True False alice started))"
    using c by (simp add: a_loadData_def)
  have r: "fst (a_post_students code_unit_compare True False alice started) =
       Response 500 (Message ''Failed to save data to the server.'')"
    by (simp add: a)
  have p: "fst (post_students code_unit_compare True False alice (fresh :: bucket obj server)) =
       Response 500 (Message ''Failed to save data to the server file.'')"
    by (simp add: post_students_def alice_def truthy_def fresh_def loadData_def
      store_defs empty_doc_def has_roll_no_def default_course_def array_sort_def Let_def error_message_def)
  show ?thesis
    using after_failed_add_facts started_facts p c h d r
    by (simp add: l empty_doc_def roster_def stored_doc_def stringify_def backfill_def)
qed

theorem failed_save_keeps_mutation_witness:
  "truthy (req_roll_no alice) \<and> truthy (req_name alice)
   \<and> fst (a_post_students code_unit_compare True False alice started) =
       Response 500 (Message ''Failed to save data to the server.'')
   \<and> students (heap (snd (a_loadData True (snd (a_post_students code_unit_compare True False alice started)))) 0) \<noteq>
       students (heap started 0)"
  using failed_save_keeps_mutation by (simp add: alice_def truthy_def)

text \<open>
  Claim C8, as amended. The cached server (\<^verbatim>\<open>part_000\<close>, lines 16-39) returns the object behind
  \<^verbatim>\<open>dataCache\<close> whenever it is set, without reading the file and without changing anything,
  and reads the file only when it is not set. \<^verbatim>\<open>loadData\<close> of \<^verbatim>\<open>src/server.js\<close> reads the file on
  every call, whatever \<^verbatim>\<open>dataCache\<close> holds, and makes \<^verbatim>\<open>dataCache\<close> refer to what it read. In
  both, a file that parses to an object without \<^verbatim>\<open>students\<close> or without \<^verbatim>\<open>attendance\<close> yields a
  document in which the missing part is \<^verbatim>\<open>[]\<close> or \<^verbatim>\<open>{}\<close>, with no error and no write.
\<close>

theorem load_data:
  fixes s :: "'u server" and c :: "'v server"
  shows "(dataCache c = Some r \<longrightarrow> a_loadData w c = (Inr r, c))
       \<and> (dataCache c = None \<and> data_file c = Parsed (JObject raw) \<longrightarrow>
            fst (a_loadData w c) = Inr (next_ref c)
          \<and> dataCache (snd (a_loadData w c)) = Some (next_ref c)
          \<and> data_file (snd (a_loadData w c)) = data_file c
          \<and> heap (snd (a_loadData w c)) (next_ref c) =
              \<lparr>students = (case raw_students raw of None \<Rightarrow> [] | Some ss \<Rightarrow> ss),
               attendance = (case raw_attendance raw of None \<Rightarrow> [] | Some a \<Rightarrow> a)\<rparr>)
       \<and> (data_file s = Parsed (JObject raw') \<longrightarrow>
            fst (loadData w s) = next_ref s
          \<and> dataCache (snd (loadData w s)) = Some (next_ref s)
          \<and> data_file (snd (loadData w s)) = data_file s
          \<and> heap (snd (loadData w s)) (next_ref s) =
              \<lparr>students = (case raw_students raw' of None \<Rightarrow> [] | Some ss \<Rightarrow> ss),
               attendance = (case raw_attendance raw' of None \<Rightarrow> [] | Some a \<Rightarrow> a)\<rparr>)"
  by (simp add: a_loadData_def loadData_def store_defs backfill_def)

theorem load_data_witness:
  "dataCache started = Some 0 \<and> a_loadData False started = (Inr 0, started)
   \<and> dataCache (roster_only :: bucket server) = None
   \<and> fst (a_loadData True (roster_only :: bucket server)) = Inr 0
   \<and> heap (snd (a_loadData True (roster_only :: bucket server))) 0 =
       \<lparr>students = [\<lparr>roll_no = ''001'', name = ''Alice'', course = Some ''N/A''\<rparr>], attendance = []\<rparr>
   \<and> fst (loadData True (roster_only :: bucket obj server)) = 0
   \<and> heap (snd (loadData True (roster_only :: bucket obj server))) 0 =
       \<lparr>students = [\<lparr>roll_no = ''001'', name = ''Alice'', course = Some ''N/A''\<rparr>], attendance = []\<rparr>
   \<and> data_file (snd (loadData True (roster_only :: bucket obj server))) = data_file roster_only"
  using load_data[where c = started and r = 0 and w = False and s = "roster_only :: bucket obj server"]
    load_data[where c = "roster_only :: bucket server" and w = True and s = "roster_only :: bucket obj server"
      and raw = "\<lparr>raw_students = Some [\<lparr>roll_no = ''001'', name = ''Alice'', course = Some ''N/A''\<rparr>],
                   raw_attendance = None\<rparr>"
      and raw' = "\<lparr>raw_students = Some [\<lparr>roll_no = ''001'', name = ''Alice'', course = Some ''N/A''\<rparr>],
                   raw_attendance = None\<rparr>"]
  by (simp add: started_facts roster_only_def fresh_def)

text \<open>
  Claim C8 as it was stated fails on \<^verbatim>\<open>src/server.js\<close>: after a failed save \<^verbatim>\<open>dataCache\<close> is set
  and refers to a roster with a student, yet \<^verbatim>\<open>loadData\<close> returns another object, read from
  the file, whose roster is empty.
\<close>

theorem load_reads_file_counterexample:
  "dataCache after_failed_add = Some 0
   \<and> students (heap after_failed_add 0) = [\<lparr>roll_no = ''001'', name = ''Alice'', course = Some ''N/A''\<rparr>]
   \<and> fst (loadData True after_failed_add) = 1
   \<and> students (heap (snd (loadData True after_failed_add)) 1) = []"
  using fst_loadData[of True after_failed_add] heap_loadData[of True after_failed_add]
  by (simp add: after_failed_add_facts stored_doc_def stringify_def backfill_def empty_doc_def)

section \<open>Subjects that name inherited properties\<close>

text \<open>
  Claim C4 fails on the code. The subject \<^verbatim>\<open>constructor\<close> decodes to itself, and under it
  \<^verbatim>\<open>data.attendance[subject]\<close> reads the inherited function \<^verbatim>\<open>Object\<close>, which is truthy: no object is
  created for the subject, and \<^verbatim>\<open>data.attendance[subject][date] = enrichedAttendance\<close> sets a
  property of that function. The request is answered with 200 and the message that the
  attendance was saved, yet the document written to the data file is the one that was read, with
  no bucket for the subject and the date; \<^verbatim>\<open>GET\<close> returns the entry as long as the process runs
  and the empty list after a restart.
\<close>

theorem inherited_subject_not_stored:
  "decode_ascii ''constructor'' = Some ''constructor''
   \<and> fst (post_attendance decode_ascii True True ''constructor'' ''2024-01-01'' (Array alice_present) enrolled) =
       Response 200 (Message ''Attendance for constructor on 2024-01-01 saved successfully.'')
   \<and> stored_doc constructor_day = stored_doc enrolled
   \<and> bucket_at (attendance (stored_doc constructor_day)) ''constructor'' ''2024-01-01'' = None
   \<and> on_functions constructor_day ''constructor'' =
       [(''2024-01-01'', [\<lparr>att_roll_no = Some ''001'', status = Some ''present'', att_name = Some ''Alice''\<rparr>])]
   \<and> fst (get_attendance decode_ascii True ''constructor'' ''2024-01-01'' constructor_day) =
       Response 200 (EntriesJson [\<lparr>att_roll_no = Some ''001'', status = Some ''present'', att_name = Some ''Alice''\<rparr>])
   \<and> fst (get_attendance decode_ascii True ''constructor'' ''2024-01-01'' (restarted constructor_day)) =
       Response 200 (EntriesJson [])"
proof -
  have "decode_ascii ''constructor'' = Some ''constructor''"
    "fst (post_attendance decode_ascii True True ''constructor'' ''2024-01-01'' (Array alice_present) enrolled) =
       Response 200 (Message ''Attendance for constructor on 2024-01-01 saved successfully.'')"
    "stored_doc constructor_day = stored_doc enrolled"
    "bucket_at (attendance (stored_doc constructor_day)) ''constructor'' ''2024-01-01'' = None"
    "on_functions constructor_day ''constructor'' =
       [(''2024-01-01'', [\<lparr>att_roll_no = Some ''001'', status = Some ''present'', att_name = Some ''Alice''\<rparr>])]"
    "fst (get_attendance decode_ascii True ''constructor'' ''2024-01-01'' constructor_day) =
       Response 200 (EntriesJson [\<lparr>att_roll_no = Some ''001'', status = Some ''present'', att_name = Some ''Alice''\<rparr>])"
    "fst (get_attendance decode_ascii True ''constructor'' ''2024-01-01'' (restarted constructor_day)) =
       Response 200 (EntriesJson [])"
    by code_simp+
  then show ?thesis by simp
qed


text \<open>
  Claim C5 fails on the code, by the same reading of an inherited subject. After that
  recording, the deletion of the student is answered with 200 and leaves a stored document
  without the student and without attendance, yet \<^verbatim>\<open>GET\<close> for the subject \<^verbatim>\<open>constructor\<close> and the
  date still returns the entry of the deleted student: the cascade goes through
  \<^verbatim>\<open>Object.keys(data.attendance)\<close>, which lists own properties only.
\<close>

theorem deleted_student_still_served:
  "known ''001'' (roster constructor_day)
   \<and> fst (delete_students True True ''001'' constructor_day) =
       Response 200 (Message ''Student 001 deleted successfully.'')
   \<and> roster after_removal = []
   \<and> attendance (stored_doc after_removal) = []
   \<and> fst (get_attendance decode_ascii True ''constructor'' ''2024-01-01'' after_removal) =
       Response 200 (EntriesJson [\<lparr>att_roll_no = Some ''001'', status = Some ''present'', att_name = Some ''Alice''\<rparr>])"
proof -
  have "known ''001'' (roster constructor_day)"
    "fst (delete_students True True ''001'' constructor_day) =
       Response 200 (Message ''Student 001 deleted successfully.'')"
    "roster after_removal = []"
    "attendance (stored_doc after_removal) = []"
    "fst (get_attendance decode_ascii True ''constructor'' ''2024-01-01'' after_removal) =
       Response 200 (EntriesJson [\<lparr>att_roll_no = Some ''001'', status = Some ''present'', att_name = Some ''Alice''\<rparr>])"
    by code_simp+
  then show ?thesis by simp
qed

section \<open>The metrics\<close>





lemma set_set_prop: "set (set_prop k v ob) \<subseteq> insert (k, v) (set ob)"
  by (induction ob) auto



lemma get_prop_Some_mem: "get_prop ob k = Some v \<Longrightarrow> (k, v) \<in> set ob"
  by (simp add: get_prop_def map_of_SomeD)

subsection \<open>Numbers\<close>













subsection \<open>The tally\<close>











































text \<open>
  Claim C7 fails on the code. \<^verbatim>\<open>if (studentMetrics[rollNo])\<close> is meant to tell whether the student
  is in the roster (\<^verbatim>\<open>// Ensure student still exists in the main list before counting\<close>), but on
  an object made by \<^verbatim>\<open>{}\<close> it is also true of a roll number that names an inherited property.
  With one student, present, and an entry of the roll number \<^verbatim>\<open>constructor\<close>, absent, the one
  valid entry gives the rate 100, and the code reports 50 for the day and for the average.
\<close>

theorem counts_inherited_names:
  "b_students intruder_run = [\<lparr>roll_no = ''001'', name = ''Alice'', course = None\<rparr>]
   \<and> attendanceData intruder_run = [(''2024-01-01'', intruder_day)]
   \<and> valid_entries (b_students intruder_run) intruder_day =
       [\<lparr>att_roll_no = Some ''001'', status = Some ''present'', att_name = None\<rparr>]
   \<and> day_rate (b_students intruder_run) intruder_day = Finite 100
   \<and> get_prop (day_rates intruder_run) ''2024-01-01'' = Some (Finite 50)
   \<and> json_avgAttendance (b_get_metrics intruder_run) = ''50.0%''
   \<and> json_bestDay (b_get_metrics intruder_run) = ''2024-01-01 (50.0%)''"
proof -
  have "b_students intruder_run = [\<lparr>roll_no = ''001'', name = ''Alice'', course = None\<rparr>]"
    "attendanceData intruder_run = [(''2024-01-01'', intruder_day)]"
    "valid_entries (b_students intruder_run) intruder_day =
       [\<lparr>att_roll_no = Some ''001'', status = Some ''present'', att_name = None\<rparr>]"
    "day_rate (b_students intruder_run) intruder_day = Finite 100"
    "get_prop (day_rates intruder_run) ''2024-01-01'' = Some (Finite 50)"
    "json_avgAttendance (b_get_metrics intruder_run) = ''50.0%''"
    "json_bestDay (b_get_metrics intruder_run) = ''2024-01-01 (50.0%)''"
    by code_simp+
  then show ?thesis by simp
qed


section \<open>The rankings\<close>

text \<open>
  The example of a tie: of three students over ten recorded days, two at 90 percent share the
  rank 1, in the order of their names, and the one at 80 percent has the rank 3.
\<close>

lemma ranks_of_ten_days:
  "b_get_rankings code_unit_compare ten_days =
     [\<lparr>rank = 1, ranking_roll_no = ''103'', ranking_name = ''Asha'', ranking_percent = ''90.0''\<rparr>,
      \<lparr>rank = 1, ranking_roll_no = ''101'', ranking_name = ''Bilal'', ranking_percent = ''90.0''\<rparr>,
      \<lparr>rank = 3, ranking_roll_no = ''102'', ranking_name = ''Chand'', ranking_percent = ''80.0''\<rparr>]"
  by code_simp

text \<open>
  Claim C2 fails on the code. \<^verbatim>\<open>studentMetrics[s.roll_no] = {...}\<close> with the roll number
  \<^verbatim>\<open>__proto__\<close> sets the prototype of \<^verbatim>\<open>studentMetrics\<close> and adds no property, so
  \<^verbatim>\<open>Object.entries(studentMetrics)\<close> has no entry for that student. With Alice absent and Eve, of
  roll number \<^verbatim>\<open>__proto__\<close>, present on the one recorded day, \<^verbatim>\<open>GET /api/rankings\<close> returns the one
  row of Alice, at rank 1 with 0.0 percent; Eve, at 100 percent, is not ranked.
\<close>

theorem roll_number_proto_not_ranked:
  "b_students eve_run = [\<lparr>roll_no = ''001'', name = ''Alice'', course = None\<rparr>,
                        \<lparr>roll_no = ''__proto__'', name = ''Eve'', course = None\<rparr>]
   \<and> attendanceData eve_run = [(''2024-01-01'', eve_day)]
   \<and> b_get_rankings code_unit_compare eve_run =
       [\<lparr>rank = 1, ranking_roll_no = ''001'', ranking_name = ''Alice'', ranking_percent = ''0.0''\<rparr>]"
proof -
  have "b_students eve_run = [\<lparr>roll_no = ''001'', name = ''Alice'', course = None\<rparr>,
                        \<lparr>roll_no = ''__proto__'', name = ''Eve'', course = None\<rparr>]"
    "attendanceData eve_run = [(''2024-01-01'', eve_day)]"
    "b_get_rankings code_unit_compare eve_run =
       [\<lparr>rank = 1, ranking_roll_no = ''001'', ranking_name = ''Alice'', ranking_percent = ''0.0''\<rparr>]"
    by code_simp+
  then show ?thesis by simp
qed

end
